theory Spec2Isabelle
  imports Main
begin

section \<open>Data model\<close>

text \<open>
  JavaScript objects that travel over HTTP (request bodies, response bodies) are JSON
  values. An object is a list of key/value pairs in the order the source writes them.
\<close>

datatype json =
    JNull
  | JBool bool
  | JNum int
  | JStr string
  | JArr "json list"
  | JObj "(string \<times> json) list"

text \<open>\<open>has_field k j\<close>: some object inside \<open>j\<close>, at any depth, has the key \<open>k\<close>.\<close>

fun has_field :: "string \<Rightarrow> json \<Rightarrow> bool" where
  "has_field k JNull = False"
| "has_field k (JBool b) = False"
| "has_field k (JNum n) = False"
| "has_field k (JStr s) = False"
| "has_field k (JArr xs) = list_ex (has_field k) xs"
| "has_field k (JObj kvs) = list_ex (\<lambda>kv. fst kv = k \<or> has_field k (snd kv)) kvs"

text \<open>
  One row of the \<open>users\<close> table (README, Database Schema): \<open>id SERIAL PRIMARY KEY\<close>,
  \<open>email ... UNIQUE\<close>, \<open>role ... DEFAULT 'user'\<close>, both timestamps \<open>DEFAULT NOW()\<close>.
  Timestamps are instants counted as natural numbers.
\<close>

record user_row =
  u_id :: int
  u_name :: string
  u_email :: string
  u_password :: string
  u_role :: string
  u_created_at :: nat
  u_updated_at :: nat

text \<open>
  The database: the rows of \<open>users\<close> in storage order, and the sequence behind the
  serial \<open>id\<close> column. Every service function takes the database and returns it,
  updated or not.
\<close>

record database =
  users :: "user_row list"
  users_id_seq :: int

text \<open>A thrown \<open>Error\<close>; the controllers match on its message.\<close>

datatype error = Error string

fun message :: "error \<Rightarrow> string" where
  "message (Error m) = m"

text \<open>The claims a token carries: \<open>{id, email, role}\<close>.\<close>

record claims =
  c_id :: int
  c_email :: string
  c_role :: string

text \<open>What the validation schemas hand to the controllers (\<open>validationResult.data\<close>).\<close>

record signup_data =
  su_name :: string
  su_email :: string
  su_password :: string
  su_role :: "string option"

record signin_data =
  si_email :: string
  si_password :: string

record updates =
  up_name :: "string option"
  up_email :: "string option"
  up_password :: "string option"
  up_role :: "string option"

text \<open>The objects the services return: the column lists of their \<open>select\<close>/\<open>returning\<close>.\<close>

record auth_user =
  a_id :: int
  a_name :: string
  a_email :: string
  a_role :: string
  a_created_at :: nat

record user_view =
  v_id :: int
  v_email :: string
  v_name :: string
  v_role :: string
  v_created_at :: nat
  v_updated_at :: nat

record deleted_user =
  d_id :: int
  d_name :: string
  d_email :: string
  d_role :: string

text \<open>
  What the code imports and this development takes as given: the bcrypt library, the
  token utility \<open>#utils/jwt.js\<close>, the Zod schemas of \<open>#validations\<close> and the clock.
  A bcrypt call that throws is \<open>None\<close>, a token call that throws is \<open>Inl\<close> of the
  error thrown, and a schema that rejects its input is \<open>Inl\<close> of the formatted
  validation error.
\<close>

record deps =
  bcrypt_hashSync :: "string \<Rightarrow> nat \<Rightarrow> string option"
  bcrypt_compare :: "string \<Rightarrow> string \<Rightarrow> bool option"
  jwttoken_sign :: "claims \<Rightarrow> error + string"
  jwttoken_verify :: "string \<Rightarrow> error + claims"
  signupSchema :: "json \<Rightarrow> json + signup_data"
  signInSchema :: "json \<Rightarrow> json + signin_data"
  userIdSchema :: "string option \<Rightarrow> json + int"
  updateUserSchema :: "json \<Rightarrow> json + updates"
  now :: nat

section \<open>The users table\<close>

definition select_by_email :: "database \<Rightarrow> string \<Rightarrow> user_row list" where
  \<comment> \<open>\<open>select().from(users).where(eq(users.email, email)).limit(1)\<close>\<close>
  "select_by_email db email = take 1 (filter (\<lambda>r. u_email r = email) (users db))"

text \<open>
  The \<open>id\<close> column is \<open>SERIAL\<close>, a 32-bit integer. A statement that compares it
  with a number beyond that range is refused by the database, and the query throws.
\<close>

definition int4 :: "int \<Rightarrow> bool" where
  "int4 i \<longleftrightarrow> - 2147483648 \<le> i \<and> i \<le> 2147483647"

definition out_of_range :: error where
  "out_of_range = Error ''value is out of range for type integer''"

definition select_by_id :: "database \<Rightarrow> int \<Rightarrow> error + user_row list" where
  \<comment> \<open>\<open>select(...).from(users).where(eq(users.id, id)).limit(1)\<close>\<close>
  "select_by_id db i =
     (if int4 i then Inr (take 1 (filter (\<lambda>r. u_id r = i) (users db))) else Inl out_of_range)"

definition unique_violation :: error where
  "unique_violation = Error ''duplicate key value violates unique constraint''"

definition insert_users ::
  "deps \<Rightarrow> database \<Rightarrow> string \<Rightarrow> string \<Rightarrow> string \<Rightarrow> string \<Rightarrow> (error + user_row) \<times> database" where
  \<comment> \<open>\<open>insert(users).values({name, email, password, role})\<close>: the sequence gives the
      id (and advances even when the statement fails), the clock both timestamps; the
      unique constraint on \<open>email\<close> rejects a second row with the same email. The
      values are taken to fit their columns (\<open>VARCHAR(255)\<close>, \<open>VARCHAR(50)\<close> for the
      role) and the sequence not to have run out: the length limits of the sign-up schema
      are not among the sources.\<close>
  "insert_users d db n e p r =
     (let db1 = db\<lparr>users_id_seq := users_id_seq db + 1\<rparr> in
      if list_ex (\<lambda>x. u_email x = e) (users db) then (Inl unique_violation, db1)
      else
        let row = \<lparr>u_id = users_id_seq db, u_name = n, u_email = e, u_password = p,
                   u_role = r, u_created_at = now d, u_updated_at = now d\<rparr>
        in (Inr row, db1\<lparr>users := users db @ [row]\<rparr>))"

definition set_columns :: "updates \<Rightarrow> nat \<Rightarrow> user_row \<Rightarrow> user_row" where
  \<comment> \<open>\<open>.set({...updates, updated_at})\<close>: a key that is absent leaves its column alone.\<close>
  "set_columns u t r =
     r\<lparr>u_name := (case up_name u of None \<Rightarrow> u_name r | Some x \<Rightarrow> x),
       u_email := (case up_email u of None \<Rightarrow> u_email r | Some x \<Rightarrow> x),
       u_password := (case up_password u of None \<Rightarrow> u_password r | Some x \<Rightarrow> x),
       u_role := (case up_role u of None \<Rightarrow> u_role r | Some x \<Rightarrow> x),
       u_updated_at := t\<rparr>"

definition update_users ::
  "database \<Rightarrow> int \<Rightarrow> updates \<Rightarrow> nat \<Rightarrow> (error + user_row list) \<times> database" where
  \<comment> \<open>\<open>update(users).set(updateData).where(eq(users.id, id)).returning(...)\<close>: fails
      for an id beyond the column's range, and on the unique constraint when the new
      email is another row's; otherwise rewrites the matching rows and returns them.
      The new values are taken to fit their columns, as in \<open>insert_users\<close>.\<close>
  "update_users db i u t =
     (if \<not> int4 i then (Inl out_of_range, db)
      else if (case up_email u of None \<Rightarrow> False
               | Some e \<Rightarrow> list_ex (\<lambda>x. u_id x \<noteq> i \<and> u_email x = e) (users db))
      then (Inl unique_violation, db)
      else (Inr (map (set_columns u t) (filter (\<lambda>r. u_id r = i) (users db))),
            db\<lparr>users := map (\<lambda>r. if u_id r = i then set_columns u t r else r) (users db)\<rparr>))"

definition delete_users :: "database \<Rightarrow> int \<Rightarrow> (error + user_row list) \<times> database" where
  \<comment> \<open>\<open>delete(users).where(eq(users.id, id)).returning(...)\<close>\<close>
  "delete_users db i =
     (if \<not> int4 i then (Inl out_of_range, db)
      else (Inr (filter (\<lambda>r. u_id r = i) (users db)),
            db\<lparr>users := filter (\<lambda>r. u_id r \<noteq> i) (users db)\<rparr>))"

section \<open>services/auth.service.js\<close>

definition hashPassword :: "deps \<Rightarrow> string \<Rightarrow> error + string" where
  "hashPassword d password =
     (case bcrypt_hashSync d password 12 of
        Some h \<Rightarrow> Inr h
      | None \<Rightarrow> Inl (Error ''Wrong Hash''))"

definition comparePassword :: "deps \<Rightarrow> string \<Rightarrow> string \<Rightarrow> error + bool" where
  "comparePassword d password hashedPassword =
     (case bcrypt_compare d password hashedPassword of
        Some b \<Rightarrow> Inr b
      | None \<Rightarrow> Inl (Error ''Password comparison failed''))"

definition authenticateUser ::
  "deps \<Rightarrow> database \<Rightarrow> signin_data \<Rightarrow> (error + auth_user) \<times> database" where
  "authenticateUser d db inp =
     (case select_by_email db (si_email inp) of
        [] \<Rightarrow> (Inl (Error ''User not found''), db)
      | user # _ \<Rightarrow>
          (case comparePassword d (si_password inp) (u_password user) of
             Inl e \<Rightarrow> (Inl e, db)
           | Inr isPasswordValid \<Rightarrow>
               if \<not> isPasswordValid then (Inl (Error ''Invalid password''), db)
               else (Inr \<lparr>a_id = u_id user, a_name = u_name user, a_email = u_email user,
                          a_role = u_role user, a_created_at = u_created_at user\<rparr>, db)))"

definition createUser ::
  "deps \<Rightarrow> database \<Rightarrow> signup_data \<Rightarrow> (error + auth_user) \<times> database" where
  "createUser d db inp =
     (let role = (case su_role inp of None \<Rightarrow> ''user'' | Some r \<Rightarrow> r) in
      case select_by_email db (su_email inp) of
        _ # _ \<Rightarrow> (Inl (Error ''User with this email already exists''), db)
      | [] \<Rightarrow>
          (case hashPassword d (su_password inp) of
             Inl e \<Rightarrow> (Inl e, db)
           | Inr password_hash \<Rightarrow>
               (case insert_users d db (su_name inp) (su_email inp) password_hash role of
                  (Inl e, db') \<Rightarrow> (Inl e, db')
                | (Inr newUser, db') \<Rightarrow>
                    (Inr \<lparr>a_id = u_id newUser, a_name = u_name newUser,
                          a_email = u_email newUser, a_role = u_role newUser,
                          a_created_at = u_created_at newUser\<rparr>, db'))))"

section \<open>services/users.services.js\<close>

definition view :: "user_row \<Rightarrow> user_view" where
  \<comment> \<open>the column list \<open>{id, email, name, role, created_at, updated_at}\<close>\<close>
  "view r = \<lparr>v_id = u_id r, v_email = u_email r, v_name = u_name r, v_role = u_role r,
              v_created_at = u_created_at r, v_updated_at = u_updated_at r\<rparr>"

definition deleted_view :: "user_row \<Rightarrow> deleted_user" where
  \<comment> \<open>the column list \<open>{id, name, email, role}\<close>\<close>
  "deleted_view r = \<lparr>d_id = u_id r, d_name = u_name r, d_email = u_email r, d_role = u_role r\<rparr>"

definition getAllUsers_service :: "database \<Rightarrow> (error + user_view list) \<times> database" where
  "getAllUsers_service db = (Inr (map view (users db)), db)"

definition getUserById_service :: "database \<Rightarrow> int \<Rightarrow> (error + user_view) \<times> database" where
  "getUserById_service db i =
     (case select_by_id db i of
        Inl e \<Rightarrow> (Inl e, db)
      | Inr found \<Rightarrow>
          (case map view found of
             [] \<Rightarrow> (Inl (Error ''User not found''), db)
           | user # _ \<Rightarrow> (Inr user, db)))"

text \<open>
  \<open>const [x] = await ...returning(...)\<close> takes the first returned row, and is
  \<open>undefined\<close> (here \<open>None\<close>) when the statement returned none.
\<close>

definition first_of :: "'a list \<Rightarrow> 'a option" where
  "first_of xs = (case xs of [] \<Rightarrow> None | x # _ \<Rightarrow> Some x)"

definition updateUser_service ::
  "deps \<Rightarrow> database \<Rightarrow> int \<Rightarrow> updates \<Rightarrow> (error + user_view option) \<times> database" where
  \<comment> \<open>\<open>if (updates.password)\<close> is JavaScript truthiness: a present, non-empty string.\<close>
  "updateUser_service d db i upd =
     (case select_by_id db i of
        Inl e \<Rightarrow> (Inl e, db)
      | Inr [] \<Rightarrow> (Inl (Error ''User not found''), db)
      | Inr (_ # _) \<Rightarrow>
          (case (case up_password upd of
                   None \<Rightarrow> Inr upd
                 | Some p \<Rightarrow>
                     if p \<noteq> [] then
                       (case hashPassword d p of
                          Inl e \<Rightarrow> Inl e
                        | Inr h \<Rightarrow> Inr (upd\<lparr>up_password := Some h\<rparr>))
                     else Inr upd) of
             Inl e \<Rightarrow> (Inl e, db)
           | Inr upd' \<Rightarrow>
               (case update_users db i upd' (now d) of
                  (Inl e, db') \<Rightarrow> (Inl e, db')
                | (Inr returned, db') \<Rightarrow> (Inr (first_of (map view returned)), db'))))"

definition deleteUser_service ::
  "database \<Rightarrow> int \<Rightarrow> (error + deleted_user option) \<times> database" where
  "deleteUser_service db i =
     (case select_by_id db i of
        Inl e \<Rightarrow> (Inl e, db)
      | Inr [] \<Rightarrow> (Inl (Error ''User not found''), db)
      | Inr (_ # _) \<Rightarrow>
          (case delete_users db i of
             (Inl e, db') \<Rightarrow> (Inl e, db')
           | (Inr returned, db') \<Rightarrow> (Inr (first_of (map deleted_view returned)), db')))"

section \<open>Requests and responses\<close>

record request =
  req_cookies :: "(string \<times> string) list option"
  req_params :: "(string \<times> string) list"
  req_body :: json
  req_user :: "claims option"

record response =
  res_status :: nat
  res_body :: json
  res_cookies :: "(string \<times> string) list"

text \<open>A handler either sends its response or hands an error to \<open>next\<close>.\<close>

datatype outcome = Sent response | Next_error error

definition new_response :: response where
  "new_response = \<lparr>res_status = 200, res_body = JNull, res_cookies = []\<rparr>"

definition send :: "response \<Rightarrow> nat \<Rightarrow> json \<Rightarrow> outcome" where
  \<comment> \<open>\<open>res.status(code).json(body)\<close>\<close>
  "send res code body = Sent (res\<lparr>res_status := code, res_body := body\<rparr>)"

definition cookies_set :: "response \<Rightarrow> string \<Rightarrow> string \<Rightarrow> response" where
  \<comment> \<open>Modelled from the spec: \<open>#utils/cookies.js\<close> is not among the sources; the Cookie
      Adapter "sets/clears a single named cookie carrying the token".\<close>
  "cookies_set res name value =
     res\<lparr>res_cookies := filter (\<lambda>kv. fst kv \<noteq> name) (res_cookies res) @ [(name, value)]\<rparr>"

definition truthy :: "string option \<Rightarrow> bool" where
  \<comment> \<open>JavaScript truthiness of a value that is a string or \<open>undefined\<close>\<close>
  "truthy s = (case s of None \<Rightarrow> False | Some x \<Rightarrow> x \<noteq> [])"

definition json_of_view :: "user_view \<Rightarrow> json" where
  "json_of_view v =
     JObj [(''id'', JNum (v_id v)), (''email'', JStr (v_email v)), (''name'', JStr (v_name v)),
           (''role'', JStr (v_role v)), (''created_at'', JNum (int (v_created_at v))),
           (''updated_at'', JNum (int (v_updated_at v)))]"

definition json_of_deleted :: "deleted_user \<Rightarrow> json" where
  "json_of_deleted v =
     JObj [(''id'', JNum (d_id v)), (''name'', JStr (d_name v)), (''email'', JStr (d_email v)),
           (''role'', JStr (d_role v))]"

definition optional_field :: "string \<Rightarrow> json option \<Rightarrow> (string \<times> json) list" where
  \<comment> \<open>a key whose value is \<open>undefined\<close> is left out of the JSON text\<close>
  "optional_field k v = (case v of None \<Rightarrow> [] | Some j \<Rightarrow> [(k, j)])"

section \<open>The auth controller (unnamed/part_001)\<close>

definition signup :: "deps \<Rightarrow> request \<Rightarrow> database \<Rightarrow> outcome \<times> database" where
  "signup d req db =
     (case signupSchema d (req_body req) of
        Inl details \<Rightarrow>
          (send new_response 400
             (JObj [(''error'', JStr ''Validation failedhgfdsfgh''), (''details'', details),
                    (''data'', req_body req)]), db)
      | Inr v \<Rightarrow>
          (let catch = (\<lambda>err.
                 if message err = ''User with this email already exists''
                 then send new_response 409
                        (JObj [(''error'', JStr ''User with this email already exists'')])
                 else Next_error err) in
           case createUser d db v of
             (Inl err, db') \<Rightarrow> (catch err, db')
           | (Inr user, db') \<Rightarrow>
               (case jwttoken_sign d
                       \<lparr>c_id = a_id user, c_email = a_email user, c_role = a_role user\<rparr> of
                  Inl err \<Rightarrow> (catch err, db')
                | Inr token \<Rightarrow>
                    (send (cookies_set new_response ''token'' token) 201
                       (JObj [(''success'', JBool True),
                              (''message'', JStr ''User registered successfully''),
                              (''user'', JObj [(''id'', JNum (a_id user)),
                                               (''name'', JStr (a_name user)),
                                               (''email'', JStr (a_email user)),
                                               (''role'', JStr (a_role user))])]), db'))))"

definition undefined_body :: error where
  \<comment> \<open>the TypeError of reading \<open>req.body.email\<close> when \<open>req.body\<close> is \<open>null\<close> or
      \<open>undefined\<close>\<close>
  "undefined_body = Error ''Cannot read properties of undefined''"

definition signin :: "deps \<Rightarrow> request \<Rightarrow> database \<Rightarrow> outcome \<times> database" where
  \<comment> \<open>Before it looks at the validation result the handler logs \<open>req.body.email\<close>,
      which throws when there is no body (\<open>JNull\<close>); the error goes to \<open>next\<close>. A
      body that the schema accepts is an object \<open>{email, password}\<close>, so the read
      throws on a rejected body only.\<close>
  "signin d req db =
     (case signInSchema d (req_body req) of
        Inl details \<Rightarrow>
          if req_body req = JNull then (Next_error undefined_body, db)
          else
            (send new_response 400
               (JObj [(''error'', JStr ''Validation failed''), (''details'', details),
                      (''data'', req_body req)]), db)
      | Inr v \<Rightarrow>
          (let catch = (\<lambda>err.
                 if message err = ''User not found''
                 then send new_response 404 (JObj [(''error'', JStr ''User not found'')])
                 else if message err = ''Invalid password''
                 then send new_response 401 (JObj [(''error'', JStr ''Invalid credentials'')])
                 else Next_error err) in
           case authenticateUser d db v of
             (Inl err, db') \<Rightarrow> (catch err, db')
           | (Inr user, db') \<Rightarrow>
               (case jwttoken_sign d
                       \<lparr>c_id = a_id user, c_email = a_email user, c_role = a_role user\<rparr> of
                  Inl err \<Rightarrow> (catch err, db')
                | Inr token \<Rightarrow>
                    (send (cookies_set new_response ''token'' token) 200
                       (JObj [(''success'', JBool True),
                              (''message'', JStr ''User signed in successfully''),
                              (''user'', JObj [(''id'', JNum (a_id user)),
                                               (''name'', JStr (a_name user)),
                                               (''email'', JStr (a_email user)),
                                               (''role'', JStr (a_role user))])]), db'))))"

section \<open>controllers/users.controller.js\<close>

definition validation_failed :: "json \<Rightarrow> outcome" where
  "validation_failed details =
     send new_response 400 (JObj [(''error'', JStr ''Validation failed''), (''details'', details)])"

definition not_found_or_next :: "error \<Rightarrow> outcome" where
  \<comment> \<open>the \<open>catch\<close> block that \<open>getUserById\<close>, \<open>updateUser\<close> and \<open>deleteUser\<close> share\<close>
  "not_found_or_next e =
     (if message e = ''User not found''
      then send new_response 404
             (JObj [(''error'', JStr ''User not found''),
                    (''message'', JStr ''User with the specified ID does not exist'')])
      else Next_error e)"

definition undefined_user :: error where
  \<comment> \<open>the TypeError of reading \<open>req.user.role\<close> when \<open>req.user\<close> is \<open>undefined\<close>\<close>
  "undefined_user = Error ''Cannot read properties of undefined''"

definition getAllUsers :: "deps \<Rightarrow> request \<Rightarrow> database \<Rightarrow> outcome \<times> database" where
  "getAllUsers d req db =
     (case getAllUsers_service db of
        (Inl e, db') \<Rightarrow> (Next_error e, db')
      | (Inr us, db') \<Rightarrow>
          (send new_response 200
             (JObj [(''success'', JBool True),
                    (''message'', JStr ''All users retrieved successfully''),
                    (''users'', JArr (map json_of_view us)),
                    (''count'', JNum (int (length us)))]), db'))"

definition getUserById :: "deps \<Rightarrow> request \<Rightarrow> database \<Rightarrow> outcome \<times> database" where
  "getUserById d req db =
     (case userIdSchema d (map_of (req_params req) ''id'') of
        Inl details \<Rightarrow> (validation_failed details, db)
      | Inr i \<Rightarrow>
          (case getUserById_service db i of
             (Inl e, db') \<Rightarrow> (not_found_or_next e, db')
           | (Inr user, db') \<Rightarrow>
               (send new_response 200
                  (JObj [(''success'', JBool True),
                         (''message'', JStr ''User retrieved successfully''),
                         (''user'', json_of_view user)]), db')))"

definition updateUser :: "deps \<Rightarrow> request \<Rightarrow> database \<Rightarrow> outcome \<times> database" where
  "updateUser d req db =
     (case userIdSchema d (map_of (req_params req) ''id'') of
        Inl details \<Rightarrow> (validation_failed details, db)
      | Inr i \<Rightarrow>
          (case updateUserSchema d (req_body req) of
             Inl details \<Rightarrow> (validation_failed details, db)
           | Inr upd \<Rightarrow>
               (case req_user req of
                  None \<Rightarrow> (not_found_or_next undefined_user, db)
                | Some user \<Rightarrow>
                    if c_role user \<noteq> ''admin'' \<and> c_id user \<noteq> i then
                      (send new_response 403
                         (JObj [(''error'', JStr ''Access denied''),
                                (''message'', JStr ''You can only update your own profile'')]), db)
                    else if truthy (up_role upd) \<and> c_role user \<noteq> ''admin'' then
                      (send new_response 403
                         (JObj [(''error'', JStr ''Access denied''),
                                (''message'', JStr ''Only admin users can change user roles'')]), db)
                    else
                      (case updateUser_service d db i upd of
                         (Inl e, db') \<Rightarrow> (not_found_or_next e, db')
                       | (Inr updatedUser, db') \<Rightarrow>
                           (send new_response 200
                              (JObj ([(''success'', JBool True),
                                      (''message'', JStr ''User updated successfully'')]
                                     @ optional_field ''user'' (map_option json_of_view updatedUser))),
                            db')))))"

definition deleteUser :: "deps \<Rightarrow> request \<Rightarrow> database \<Rightarrow> outcome \<times> database" where
  "deleteUser d req db =
     (case userIdSchema d (map_of (req_params req) ''id'') of
        Inl details \<Rightarrow> (validation_failed details, db)
      | Inr i \<Rightarrow>
          (case req_user req of
             None \<Rightarrow> (not_found_or_next undefined_user, db)
           | Some user \<Rightarrow>
               if c_role user \<noteq> ''admin'' \<and> c_id user \<noteq> i then
                 (send new_response 403
                    (JObj [(''error'', JStr ''Access denied''),
                           (''message'', JStr ''You can only delete your own account'')]), db)
               else if c_role user = ''admin'' \<and> c_id user = i then
                 (send new_response 403
                    (JObj [(''error'', JStr ''Action not allowed''),
                           (''message'', JStr ''Admin users cannot delete their own account'')]), db)
               else
                 (case deleteUser_service db i of
                    (Inl e, db') \<Rightarrow> (not_found_or_next e, db')
                  | (Inr deletedUser, db') \<Rightarrow>
                      (send new_response 200
                         (JObj ([(''success'', JBool True),
                                 (''message'', JStr ''User deleted successfully'')]
                                @ optional_field ''user'' (map_option json_of_deleted deletedUser))),
                       db'))))"

section \<open>middleware/auth.middleware.js\<close>

text \<open>A middleware either ends the request with a response or calls \<open>next()\<close>.\<close>

datatype mw_result = Stop response | Pass request

definition unauthorized :: "string \<Rightarrow> string \<Rightarrow> response" where
  "unauthorized err msg =
     new_response\<lparr>res_status := 401,
                  res_body := JObj [(''error'', JStr err), (''message'', JStr msg)]\<rparr>"

definition cookie_token :: "request \<Rightarrow> string option" where
  \<comment> \<open>\<open>req.cookies?.token\<close>\<close>
  "cookie_token req = (case req_cookies req of None \<Rightarrow> None | Some cs \<Rightarrow> map_of cs ''token'')"

definition authenticateToken :: "deps \<Rightarrow> request \<Rightarrow> mw_result" where
  \<comment> \<open>\<open>if (!token)\<close>: no cookie jar, no such cookie and the empty string all count
      as no token.\<close>
  "authenticateToken d req =
     (let token = cookie_token req in
      case token of
        None \<Rightarrow> Stop (unauthorized ''Access denied'' ''No authentication token provided'')
      | Some t \<Rightarrow>
          if t = [] then
            Stop (unauthorized ''Access denied'' ''No authentication token provided'')
          else
            (case jwttoken_verify d t of
               Inl e \<Rightarrow>
                 Stop (unauthorized ''Invalid token'' ''Authentication token is invalid or expired'')
             | Inr decoded \<Rightarrow> Pass (req\<lparr>req_user := Some decoded\<rparr>)))"

datatype roles_arg = Role string | Roles "string list"

definition requireRole :: "roles_arg \<Rightarrow> request \<Rightarrow> mw_result" where
  "requireRole roles req =
     (case req_user req of
        None \<Rightarrow> Stop (unauthorized ''Authentication required'' ''User must be authenticated'')
      | Some user \<Rightarrow>
          (let userRoles = (case roles of Roles rs \<Rightarrow> rs | Role r \<Rightarrow> [r]) in
           if \<not> List.member userRoles (c_role user) then
             Stop (new_response\<lparr>res_status := 403,
                     res_body := JObj [(''error'', JStr ''Insufficient permissions''),
                                       (''message'', JStr ''User does not have required permissions'')]\<rparr>)
           else Pass req))"

section \<open>The users router (unnamed/part_002)\<close>

datatype http_method = GET | POST | PUT | DELETE

datatype middleware = AuthenticateToken | RequireRole roles_arg

datatype controller = GetAllUsers | GetUserById | UpdateUser | DeleteUser

record route =
  r_method :: http_method
  r_path :: string
  r_middleware :: "middleware list"
  r_controller :: controller

definition router :: "route list" where
  "router =
     [\<lparr>r_method = GET, r_path = ''/'', r_middleware = [AuthenticateToken], r_controller = GetAllUsers\<rparr>,
      \<lparr>r_method = GET, r_path = ''/:id'', r_middleware = [AuthenticateToken], r_controller = GetUserById\<rparr>,
      \<lparr>r_method = PUT, r_path = ''/:id'', r_middleware = [AuthenticateToken], r_controller = UpdateUser\<rparr>,
      \<lparr>r_method = DELETE, r_path = ''/:id'', r_middleware = [AuthenticateToken], r_controller = DeleteUser\<rparr>]"

fun run_middleware :: "deps \<Rightarrow> middleware \<Rightarrow> request \<Rightarrow> mw_result" where
  "run_middleware d AuthenticateToken req = authenticateToken d req"
| "run_middleware d (RequireRole roles) req = requireRole roles req"

text \<open>
  A route runs its middleware in order and then its handler; a middleware that sends a
  response ends the request there, with the database as it was.
\<close>

fun run_route ::
  "deps \<Rightarrow> middleware list \<Rightarrow> (request \<Rightarrow> database \<Rightarrow> outcome \<times> database) \<Rightarrow>
   request \<Rightarrow> database \<Rightarrow> outcome \<times> database" where
  "run_route d [] handler req db = handler req db"
| "run_route d (m # ms) handler req db =
     (case run_middleware d m req of
        Stop res \<Rightarrow> (Sent res, db)
      | Pass req' \<Rightarrow> run_route d ms handler req' db)"

text \<open>
  Path matching of the two patterns the router uses, on the path split at \<open>/\<close>:
  \<open>/\<close> matches the empty path, \<open>/:id\<close> one non-empty segment, bound to \<open>id\<close>.
\<close>

definition match_path :: "string \<Rightarrow> string list \<Rightarrow> (string \<times> string) list option" where
  "match_path pattern segments =
     (if pattern = ''/'' then (case segments of [] \<Rightarrow> Some [] | _ # _ \<Rightarrow> None)
      else if pattern = ''/:id'' then
        (case segments of [s] \<Rightarrow> if s \<noteq> [] then Some [(''id'', s)] else None | _ \<Rightarrow> None)
      else None)"

fun find_route ::
  "route list \<Rightarrow> http_method \<Rightarrow> string list \<Rightarrow> (route \<times> (string \<times> string) list) option" where
  "find_route [] m segments = None"
| "find_route (r # rs) m segments =
     (if r_method r = m then
        (case match_path (r_path r) segments of
           Some params \<Rightarrow> Some (r, params)
         | None \<Rightarrow> find_route rs m segments)
      else find_route rs m segments)"

definition serve ::
  "deps \<Rightarrow> (controller \<Rightarrow> request \<Rightarrow> database \<Rightarrow> outcome \<times> database) \<Rightarrow>
   http_method \<Rightarrow> string list \<Rightarrow> request \<Rightarrow> database \<Rightarrow> (outcome \<times> database) option" where
  \<comment> \<open>the router with its handlers given by \<open>handlers\<close>; \<open>None\<close> when no route matches\<close>
  "serve d handlers m segments req db =
     (case find_route router m segments of
        None \<Rightarrow> None
      | Some (r, params) \<Rightarrow>
          Some (run_route d (r_middleware r) (handlers (r_controller r))
                  (req\<lparr>req_params := params\<rparr>) db))"

fun controllers :: "deps \<Rightarrow> controller \<Rightarrow> request \<Rightarrow> database \<Rightarrow> outcome \<times> database" where
  "controllers d GetAllUsers = getAllUsers d"
| "controllers d GetUserById = getUserById d"
| "controllers d UpdateUser = updateUser d"
| "controllers d DeleteUser = deleteUser d"

definition users_routes ::
  "deps \<Rightarrow> http_method \<Rightarrow> string list \<Rightarrow> request \<Rightarrow> database \<Rightarrow> (outcome \<times> database) option" where
  "users_routes d = serve d (controllers d)"

section \<open>An instance of the dependencies\<close>

text \<open>
  One concrete choice of everything \<open>deps\<close> leaves open, for running the model on
  concrete requests. The hash and the token are stand-ins with the interface of the
  real ones: the hash of a password is checked by \<open>compare\<close>, a token decodes to the
  claims it was signed from.
\<close>

definition str_field :: "(string \<times> json) list \<Rightarrow> string \<Rightarrow> string option" where
  "str_field kvs k = (case map_of kvs k of Some (JStr s) \<Rightarrow> Some s | _ \<Rightarrow> None)"

definition digit :: "char \<Rightarrow> nat option" where
  "digit = map_of [(CHR ''0'', 0), (CHR ''1'', 1), (CHR ''2'', 2), (CHR ''3'', 3), (CHR ''4'', 4),
                   (CHR ''5'', 5), (CHR ''6'', 6), (CHR ''7'', 7), (CHR ''8'', 8), (CHR ''9'', 9)]"

fun parse_digits :: "string \<Rightarrow> nat \<Rightarrow> nat option" where
  "parse_digits [] acc = Some acc"
| "parse_digits (c # cs) acc =
     (case digit c of None \<Rightarrow> None | Some n \<Rightarrow> parse_digits cs (10 * acc + n))"

definition example_userIdSchema :: "string option \<Rightarrow> json + int" where
  \<comment> \<open>Modelled from the spec: \<open>#validations/users.validation.js\<close> is not among the
      sources; the id of \<open>/:id\<close> is "400 bad id" unless it is a positive number.\<close>
  "example_userIdSchema p =
     (case p of
        None \<Rightarrow> Inl (JStr ''ID is required'')
      | Some s \<Rightarrow>
          if s = [] then Inl (JStr ''ID is required'')
          else
            (case parse_digits s 0 of
               None \<Rightarrow> Inl (JStr ''ID must be a valid number'')
             | Some n \<Rightarrow>
                 if 0 < n then Inr (int n) else Inl (JStr ''ID must be a positive number'')))"

definition known_role :: "string \<Rightarrow> bool" where
  "known_role r = (r = ''user'' \<or> r = ''admin'')"

definition example_signupSchema :: "json \<Rightarrow> json + signup_data" where
  \<comment> \<open>Modelled from the spec: \<open>#validations/auth.validation.js\<close> is not among the
      sources; the body is \<open>{name, email, password, role?}\<close>, "role is restricted to
      the two known values by the validation layer", and the README's validation error
      reads "Email is required, Password must be at least 6 characters".\<close>
  "example_signupSchema body =
     (case body of
        JObj kvs \<Rightarrow>
          (case str_field kvs ''name'' of
             None \<Rightarrow> Inl (JStr ''Name is required'')
           | Some n \<Rightarrow>
               (case str_field kvs ''email'' of
                  None \<Rightarrow> Inl (JStr ''Email is required'')
                | Some e \<Rightarrow>
                    (case str_field kvs ''password'' of
                       None \<Rightarrow> Inl (JStr ''Password is required'')
                     | Some p \<Rightarrow>
                         if length p < 6 then Inl (JStr ''Password must be at least 6 characters'')
                         else if map_of kvs ''role'' = None then
                           Inr \<lparr>su_name = n, su_email = e, su_password = p, su_role = None\<rparr>
                         else
                           (case str_field kvs ''role'' of
                              None \<Rightarrow> Inl (JStr ''Role must be user or admin'')
                            | Some r \<Rightarrow>
                                if known_role r then
                                  Inr \<lparr>su_name = n, su_email = e, su_password = p, su_role = Some r\<rparr>
                                else Inl (JStr ''Role must be user or admin'')))))
      | _ \<Rightarrow> Inl (JStr ''Expected an object''))"

definition example_signInSchema :: "json \<Rightarrow> json + signin_data" where
  \<comment> \<open>Modelled from the spec: as above; the body is \<open>{email, password}\<close>.\<close>
  "example_signInSchema body =
     (case body of
        JObj kvs \<Rightarrow>
          (case str_field kvs ''email'' of
             None \<Rightarrow> Inl (JStr ''Email is required'')
           | Some e \<Rightarrow>
               (case str_field kvs ''password'' of
                  None \<Rightarrow> Inl (JStr ''Password is required'')
                | Some p \<Rightarrow>
                    if p = [] then Inl (JStr ''Password is required'')
                    else Inr \<lparr>si_email = e, si_password = p\<rparr>))
      | _ \<Rightarrow> Inl (JStr ''Expected an object''))"

definition optional_str :: "(string \<times> json) list \<Rightarrow> string \<Rightarrow> (string option) option" where
  \<comment> \<open>\<open>None\<close>: the key is there and is not a string; \<open>Some None\<close>: the key is absent\<close>
  "optional_str kvs k =
     (if map_of kvs k = None then Some None
      else (case str_field kvs k of None \<Rightarrow> None | Some s \<Rightarrow> Some (Some s)))"

definition example_updateUserSchema :: "json \<Rightarrow> json + updates" where
  \<comment> \<open>Modelled from the spec: as above; the body is "partial user fields", with the
      role and password rules of sign-up.\<close>
  "example_updateUserSchema body =
     (case body of
        JObj kvs \<Rightarrow>
          (case (optional_str kvs ''name'', optional_str kvs ''email'',
                 optional_str kvs ''password'', optional_str kvs ''role'') of
             (Some n, Some e, Some p, Some r) \<Rightarrow>
               if (case p of None \<Rightarrow> False | Some x \<Rightarrow> length x < 6) then
                 Inl (JStr ''Password must be at least 6 characters'')
               else if (case r of None \<Rightarrow> False | Some x \<Rightarrow> \<not> known_role x) then
                 Inl (JStr ''Role must be user or admin'')
               else Inr \<lparr>up_name = n, up_email = e, up_password = p, up_role = r\<rparr>
           | _ \<Rightarrow> Inl (JStr ''Expected strings''))
      | _ \<Rightarrow> Inl (JStr ''Expected an object''))"

definition example_sign :: "claims \<Rightarrow> error + string" where
  "example_sign c = Inr (''jwt.'' @ c_role c @ ''.'' @ c_email c)"

definition example_verify :: "string \<Rightarrow> error + claims" where
  "example_verify t =
     (if t = ''jwt.admin.root@example.com''
      then Inr \<lparr>c_id = 1, c_email = ''root@example.com'', c_role = ''admin''\<rparr>
      else if t = ''jwt.user.john@example.com''
      then Inr \<lparr>c_id = 2, c_email = ''john@example.com'', c_role = ''user''\<rparr>
      else Inl (Error ''invalid signature''))"

definition example_deps :: deps where
  "example_deps =
     \<lparr>bcrypt_hashSync = (\<lambda>p rounds. Some (''$2b$12$'' @ rev p)),
      bcrypt_compare = (\<lambda>p h. Some (h = ''$2b$12$'' @ rev p)),
      jwttoken_sign = example_sign,
      jwttoken_verify = example_verify,
      signupSchema = example_signupSchema,
      signInSchema = example_signInSchema,
      userIdSchema = example_userIdSchema,
      updateUserSchema = example_updateUserSchema,
      now = 1000\<rparr>"

definition root_row :: user_row where
  "root_row = \<lparr>u_id = 1, u_name = ''Root'', u_email = ''root@example.com'',
               u_password = ''$2b$12$toor-toor'', u_role = ''admin'',
               u_created_at = 10, u_updated_at = 10\<rparr>"

definition john_row :: user_row where
  "john_row = \<lparr>u_id = 2, u_name = ''John'', u_email = ''john@example.com'',
               u_password = ''$2b$12$321drowssap'', u_role = ''user'',
               u_created_at = 20, u_updated_at = 20\<rparr>"

definition example_db :: database where
  "example_db = \<lparr>users = [root_row, john_row], users_id_seq = 3\<rparr>"

definition example_request :: request where
  "example_request = \<lparr>req_cookies = Some [], req_params = [], req_body = JNull, req_user = None\<rparr>"

section \<open>Notions the statements use\<close>

definition rows_written :: "database \<Rightarrow> database \<Rightarrow> nat" where
  \<comment> \<open>how many rows of the table after the call were not in the table before it\<close>
  "rows_written db db' = length (filter (\<lambda>r. \<not> List.member (users db) r) (users db'))"

definition signed_in_body :: "user_row \<Rightarrow> json" where
  \<comment> \<open>the body of the 200 response of \<open>signin\<close> for the row that matched\<close>
  "signed_in_body user =
     JObj [(''success'', JBool True),
           (''message'', JStr ''User signed in successfully''),
           (''user'', JObj [(''id'', JNum (u_id user)), (''name'', JStr (u_name user)),
                            (''email'', JStr (u_email user)), (''role'', JStr (u_role user))])]"

text \<open>
  The status of a sign-in response is the one of its case: 404 exactly when no row has
  the email, 401 exactly when the row found fails the comparison, 200 exactly when it
  passes it.
\<close>

definition status_in_its_case :: "deps \<Rightarrow> database \<Rightarrow> signin_data \<Rightarrow> response \<Rightarrow> bool" where
  "status_in_its_case d db v res \<longleftrightarrow>
     (res_status res = 404 \<or> res_status res = 401 \<or> res_status res = 200) \<and>
     (res_status res = 404 \<longleftrightarrow> (\<forall>r\<in>set (users db). u_email r \<noteq> si_email v)) \<and>
     (res_status res = 401 \<longleftrightarrow>
        (\<exists>user. select_by_email db (si_email v) = [user] \<and>
                bcrypt_compare d (si_password v) (u_password user) = Some False)) \<and>
     (res_status res = 200 \<longleftrightarrow>
        (\<exists>user. select_by_email db (si_email v) = [user] \<and>
                bcrypt_compare d (si_password v) (u_password user) = Some True))"


section \<open>Facts about the table and the services\<close>

lemma select_by_email_empty:
  "select_by_email db e = [] \<longleftrightarrow> (\<forall>r\<in>set (users db). u_email r \<noteq> e)"
  by (auto simp: select_by_email_def filter_empty_conv)

lemma select_by_email_first:
  "select_by_email db e = (case filter (\<lambda>r. u_email r = e) (users db) of [] \<Rightarrow> [] | r # _ \<Rightarrow> [r])"
  by (simp add: select_by_email_def split: list.split)







lemma createUser_taken:
  assumes "\<exists>r\<in>set (users db). u_email r = su_email v"
  shows "createUser d db v = (Inl (Error ''User with this email already exists''), db)"
proof -
  from assms have "select_by_email db (su_email v) \<noteq> []"
    by (simp add: select_by_email_empty)
  then obtain r rs where "select_by_email db (su_email v) = r # rs"
    by (cases "select_by_email db (su_email v)") auto
  then show ?thesis
    by (simp add: createUser_def)
qed

lemma createUser_fresh:
  assumes fresh: "\<forall>r\<in>set (users db). u_email r \<noteq> su_email v"
    and hash: "bcrypt_hashSync d (su_password v) 12 = Some h"
  shows "createUser d db v =
           (Inr \<lparr>a_id = users_id_seq db, a_name = su_name v, a_email = su_email v,
                 a_role = (case su_role v of None \<Rightarrow> ''user'' | Some r \<Rightarrow> r),
                 a_created_at = now d\<rparr>,
            db\<lparr>users := users db @
                  [\<lparr>u_id = users_id_seq db, u_name = su_name v, u_email = su_email v,
                    u_password = h,
                    u_role = (case su_role v of None \<Rightarrow> ''user'' | Some r \<Rightarrow> r),
                    u_created_at = now d, u_updated_at = now d\<rparr>],
               users_id_seq := users_id_seq db + 1\<rparr>)"
proof -
  from fresh have sel: "select_by_email db (su_email v) = []"
    by (simp add: select_by_email_empty)
  from fresh have no: "\<not> list_ex (\<lambda>x. u_email x = su_email v) (users db)"
    by (auto simp: list_ex_iff)
  show ?thesis
    by (simp add: createUser_def sel hashPassword_def hash insert_users_def no Let_def)
qed

section \<open>Registration\<close>

lemma signup_taken:
  assumes "signupSchema d (req_body req) = Inr v"
    and "\<exists>r\<in>set (users db). u_email r = su_email v"
  shows "signup d req db =
           (send new_response 409 (JObj [(''error'', JStr ''User with this email already exists'')]), db)"
  using assms by (simp add: signup_def createUser_taken)

lemma signup_fresh:
  assumes "signupSchema d (req_body req) = Inr v"
    and "createUser d db v = (Inr u, db')"
    and "jwttoken_sign d \<lparr>c_id = a_id u, c_email = a_email u, c_role = a_role u\<rparr> = Inr token"
  shows "signup d req db =
           (send (cookies_set new_response ''token'' token) 201
              (JObj [(''success'', JBool True),
                     (''message'', JStr ''User registered successfully''),
                     (''user'', JObj [(''id'', JNum (a_id u)), (''name'', JStr (a_name u)),
                                      (''email'', JStr (a_email u)), (''role'', JStr (a_role u))])]),
            db')"
  using assms by (simp add: signup_def)

text \<open>
  C1. Registration, for a body the sign-up schema accepts as \<open>v\<close>. When a row already
  has the email of \<open>v\<close>, \<open>createUser\<close> throws "User with this email already exists",
  the controller answers 409, and the database is returned as it was. When no row has
  it (and bcrypt returns the hash \<open>h\<close>), \<open>createUser\<close> appends exactly one row, whose
  password column is \<open>h\<close>, and returns that row's id, name, email, role and creation
  time, with no password among them; once the token is signed the controller answers
  201 with a body that has no \<open>password\<close> key at any depth.
\<close>

theorem register_duplicate_or_insert:
  assumes "signupSchema d (req_body req) = Inr v"
  shows
    "((\<exists>r\<in>set (users db). u_email r = su_email v) \<longrightarrow>
        createUser d db v = (Inl (Error ''User with this email already exists''), db) \<and>
        signup d req db =
          (send new_response 409 (JObj [(''error'', JStr ''User with this email already exists'')]),
           db))
     \<and>
     ((\<forall>r\<in>set (users db). u_email r \<noteq> su_email v) \<and>
      bcrypt_hashSync d (su_password v) 12 = Some h \<longrightarrow>
        (\<exists>u row.
           createUser d db v =
             (Inr u, db\<lparr>users := users db @ [row], users_id_seq := users_id_seq db + 1\<rparr>) \<and>
           u_id row = users_id_seq db \<and> u_name row = su_name v \<and> u_email row = su_email v \<and>
           u_password row = h \<and>
           u_role row = (case su_role v of None \<Rightarrow> ''user'' | Some r \<Rightarrow> r) \<and>
           u = \<lparr>a_id = u_id row, a_name = u_name row, a_email = u_email row,
                a_role = u_role row, a_created_at = u_created_at row\<rparr> \<and>
           (\<forall>token.
              jwttoken_sign d \<lparr>c_id = a_id u, c_email = a_email u, c_role = a_role u\<rparr> = Inr token \<longrightarrow>
                (\<exists>res.
                   signup d req db =
                     (Sent res, db\<lparr>users := users db @ [row], users_id_seq := users_id_seq db + 1\<rparr>) \<and>
                   res_status res = 201 \<and> \<not> has_field ''password'' (res_body res)))))"
proof (intro conjI impI)
  assume taken: "\<exists>r\<in>set (users db). u_email r = su_email v"
  show "createUser d db v = (Inl (Error ''User with this email already exists''), db)"
    by (rule createUser_taken [OF taken])
  show "signup d req db =
          (send new_response 409 (JObj [(''error'', JStr ''User with this email already exists'')]),
           db)"
    by (rule signup_taken [OF assms taken])
next
  assume "(\<forall>r\<in>set (users db). u_email r \<noteq> su_email v) \<and>
          bcrypt_hashSync d (su_password v) 12 = Some h"
  then have fresh: "\<forall>r\<in>set (users db). u_email r \<noteq> su_email v"
    and hash: "bcrypt_hashSync d (su_password v) 12 = Some h"
    by simp_all
  let ?role = "case su_role v of None \<Rightarrow> ''user'' | Some r \<Rightarrow> r"
  let ?row = "\<lparr>u_id = users_id_seq db, u_name = su_name v, u_email = su_email v,
               u_password = h, u_role = ?role, u_created_at = now d, u_updated_at = now d\<rparr>"
  let ?u = "\<lparr>a_id = users_id_seq db, a_name = su_name v, a_email = su_email v,
             a_role = ?role, a_created_at = now d\<rparr>"
  let ?db' = "db\<lparr>users := users db @ [?row], users_id_seq := users_id_seq db + 1\<rparr>"
  have created: "createUser d db v = (Inr ?u, ?db')"
    by (rule createUser_fresh [OF fresh hash])
  have http: "\<exists>res. signup d req db = (Sent res, ?db') \<and> res_status res = 201 \<and>
                \<not> has_field ''password'' (res_body res)"
    if "jwttoken_sign d \<lparr>c_id = a_id ?u, c_email = a_email ?u, c_role = a_role ?u\<rparr> = Inr token"
    for token
    using signup_fresh [OF assms created that] by (simp add: send_def)
  show "\<exists>u row.
           createUser d db v =
             (Inr u, db\<lparr>users := users db @ [row], users_id_seq := users_id_seq db + 1\<rparr>) \<and>
           u_id row = users_id_seq db \<and> u_name row = su_name v \<and> u_email row = su_email v \<and>
           u_password row = h \<and>
           u_role row = (case su_role v of None \<Rightarrow> ''user'' | Some r \<Rightarrow> r) \<and>
           u = \<lparr>a_id = u_id row, a_name = u_name row, a_email = u_email row,
                a_role = u_role row, a_created_at = u_created_at row\<rparr> \<and>
           (\<forall>token.
              jwttoken_sign d \<lparr>c_id = a_id u, c_email = a_email u, c_role = a_role u\<rparr> = Inr token \<longrightarrow>
                (\<exists>res.
                   signup d req db =
                     (Sent res, db\<lparr>users := users db @ [row], users_id_seq := users_id_seq db + 1\<rparr>) \<and>
                   res_status res = 201 \<and> \<not> has_field ''password'' (res_body res)))"
  proof (intro exI [of _ ?u] exI [of _ ?row] conjI allI impI)
    show "createUser d db v = (Inr ?u, ?db')" by (rule created)
  next
    fix token
    assume "jwttoken_sign d \<lparr>c_id = a_id ?u, c_email = a_email ?u, c_role = a_role ?u\<rparr> = Inr token"
    then show "\<exists>res. signup d req db = (Sent res, ?db') \<and> res_status res = 201 \<and>
                 \<not> has_field ''password'' (res_body res)"
      by (rule http)
  qed simp_all
qed

theorem register_duplicate_or_insert_witness:
  "signup example_deps
     (example_request\<lparr>req_body := JObj [(''name'', JStr ''Johnny''),
                                        (''email'', JStr ''john@example.com''),
                                        (''password'', JStr ''hunter22'')]\<rparr>)
     example_db
   = (send new_response 409 (JObj [(''error'', JStr ''User with this email already exists'')]),
      example_db)
   \<and>
   (\<exists>res row.
      signup example_deps
        (example_request\<lparr>req_body := JObj [(''name'', JStr ''Ann''),
                                           (''email'', JStr ''ann@example.com''),
                                           (''password'', JStr ''hunter22'')]\<rparr>)
        example_db
      = (Sent res, example_db\<lparr>users := users example_db @ [row], users_id_seq := 4\<rparr>) \<and>
      u_id row = 3 \<and> u_password row = ''$2b$12$22retnuh'' \<and> u_role row = ''user'' \<and>
      res_status res = 201 \<and> \<not> has_field ''password'' (res_body res))"
proof -
  let ?johnny = "example_request\<lparr>req_body := JObj [(''name'', JStr ''Johnny''),
                     (''email'', JStr ''john@example.com''), (''password'', JStr ''hunter22'')]\<rparr>"
  let ?ann = "example_request\<lparr>req_body := JObj [(''name'', JStr ''Ann''),
                  (''email'', JStr ''ann@example.com''), (''password'', JStr ''hunter22'')]\<rparr>"
  let ?v1 = "\<lparr>su_name = ''Johnny'', su_email = ''john@example.com'', su_password = ''hunter22'',
              su_role = None\<rparr>"
  let ?v2 = "\<lparr>su_name = ''Ann'', su_email = ''ann@example.com'', su_password = ''hunter22'',
              su_role = None\<rparr>"
  have s1: "signupSchema example_deps (req_body ?johnny) = Inr ?v1"
    by (simp add: example_deps_def example_signupSchema_def str_field_def)
  have s2: "signupSchema example_deps (req_body ?ann) = Inr ?v2"
    by (simp add: example_deps_def example_signupSchema_def str_field_def)
  have taken: "\<exists>r\<in>set (users example_db). u_email r = su_email ?v1"
    by (simp add: example_db_def john_row_def)
  have fresh: "(\<forall>r\<in>set (users example_db). u_email r \<noteq> su_email ?v2) \<and>
               bcrypt_hashSync example_deps (su_password ?v2) 12 = Some ''$2b$12$22retnuh''"
    by (simp add: example_db_def john_row_def root_row_def example_deps_def)
  have sign: "jwttoken_sign example_deps c = Inr (''jwt.'' @ c_role c @ ''.'' @ c_email c)" for c
    by (simp add: example_deps_def example_sign_def)
  from register_duplicate_or_insert [OF s1, of example_db] taken
  have first: "signup example_deps ?johnny example_db
      = (send new_response 409 (JObj [(''error'', JStr ''User with this email already exists'')]),
         example_db)"
    by blast
  from conjunct2 [OF register_duplicate_or_insert [OF s2, of example_db "''$2b$12$22retnuh''"],
      THEN mp, OF fresh]
  have second: "\<exists>res row.
      signup example_deps ?ann example_db
      = (Sent res, example_db\<lparr>users := users example_db @ [row], users_id_seq := 4\<rparr>) \<and>
      u_id row = 3 \<and> u_password row = ''$2b$12$22retnuh'' \<and> u_role row = ''user'' \<and>
      res_status res = 201 \<and> \<not> has_field ''password'' (res_body res)"
    by (auto simp: sign example_db_def)
  from first second show ?thesis by blast
qed

section \<open>Signing in\<close>

lemma select_by_email_single:
  "select_by_email db e = [] \<or> (\<exists>user. select_by_email db e = [user])"
  by (simp add: select_by_email_first split: list.split)

lemma select_by_email_match:
  assumes "select_by_email db e = [user]"
  shows "user \<in> set (users db) \<and> u_email user = e"
proof -
  from assms obtain rest where eq: "filter (\<lambda>r. u_email r = e) (users db) = user # rest"
    by (auto simp: select_by_email_first split: list.splits)
  have "user \<in> set (user # rest)" by simp
  then have "user \<in> set (filter (\<lambda>r. u_email r = e) (users db))"
    by (simp only: eq)
  then show ?thesis by simp
qed

lemma authenticateUser_unknown:
  assumes "\<forall>r\<in>set (users db). u_email r \<noteq> si_email v"
  shows "authenticateUser d db v = (Inl (Error ''User not found''), db)"
  using assms by (simp add: authenticateUser_def select_by_email_empty [THEN iffD2])

lemma authenticateUser_wrong:
  assumes "select_by_email db (si_email v) = [user]"
    and "bcrypt_compare d (si_password v) (u_password user) = Some False"
  shows "authenticateUser d db v = (Inl (Error ''Invalid password''), db)"
  using assms by (simp add: authenticateUser_def comparePassword_def)

lemma authenticateUser_valid:
  assumes "select_by_email db (si_email v) = [user]"
    and "bcrypt_compare d (si_password v) (u_password user) = Some True"
  shows "authenticateUser d db v =
           (Inr \<lparr>a_id = u_id user, a_name = u_name user, a_email = u_email user,
                 a_role = u_role user, a_created_at = u_created_at user\<rparr>, db)"
  using assms by (simp add: authenticateUser_def comparePassword_def)

lemma authenticateUser_database:
  "snd (authenticateUser d db v) = db"
  by (simp add: authenticateUser_def split: list.split sum.split)

lemma signin_unknown:
  assumes "signInSchema d (req_body req) = Inr v"
    and "\<forall>r\<in>set (users db). u_email r \<noteq> si_email v"
  shows "signin d req db = (send new_response 404 (JObj [(''error'', JStr ''User not found'')]), db)"
  using assms by (simp add: signin_def authenticateUser_unknown)

lemma signin_wrong:
  assumes "signInSchema d (req_body req) = Inr v"
    and "select_by_email db (si_email v) = [user]"
    and "bcrypt_compare d (si_password v) (u_password user) = Some False"
  shows "signin d req db =
           (send new_response 401 (JObj [(''error'', JStr ''Invalid credentials'')]), db)"
  using assms by (simp add: signin_def authenticateUser_wrong)

lemma signin_valid:
  assumes "signInSchema d (req_body req) = Inr v"
    and "select_by_email db (si_email v) = [user]"
    and "bcrypt_compare d (si_password v) (u_password user) = Some True"
    and "jwttoken_sign d \<lparr>c_id = u_id user, c_email = u_email user, c_role = u_role user\<rparr> = Inr token"
  shows "signin d req db =
           (send (cookies_set new_response ''token'' token) 200 (signed_in_body user), db)"
  using assms by (simp add: signin_def authenticateUser_valid signed_in_body_def)

lemma status_404:
  assumes none: "select_by_email db (si_email v) = []" and s: "res_status res = 404"
  shows "status_in_its_case d db v res"
proof -
  from none have "\<forall>r\<in>set (users db). u_email r \<noteq> si_email v"
    by (simp add: select_by_email_empty)
  then show ?thesis
    unfolding status_in_its_case_def by (simp add: s none)
qed

lemma status_401:
  assumes one: "select_by_email db (si_email v) = [user]"
    and cmp: "bcrypt_compare d (si_password v) (u_password user) = Some False"
    and s: "res_status res = 401"
  shows "status_in_its_case d db v res"
proof -
  have taken: "\<not> (\<forall>r\<in>set (users db). u_email r \<noteq> si_email v)"
    using select_by_email_match [OF one] by blast
  have c401: "\<exists>user. select_by_email db (si_email v) = [user] \<and>
                bcrypt_compare d (si_password v) (u_password user) = Some False"
    using one cmp by blast
  have c200: "\<not> (\<exists>user. select_by_email db (si_email v) = [user] \<and>
                bcrypt_compare d (si_password v) (u_password user) = Some True)"
    using one cmp by auto
  show ?thesis
    unfolding status_in_its_case_def
    apply (simp only: s taken c401 c200)
    apply simp
    done
qed

lemma status_200:
  assumes one: "select_by_email db (si_email v) = [user]"
    and cmp: "bcrypt_compare d (si_password v) (u_password user) = Some True"
    and s: "res_status res = 200"
  shows "status_in_its_case d db v res"
proof -
  have taken: "\<not> (\<forall>r\<in>set (users db). u_email r \<noteq> si_email v)"
    using select_by_email_match [OF one] by blast
  have c200: "\<exists>user. select_by_email db (si_email v) = [user] \<and>
                bcrypt_compare d (si_password v) (u_password user) = Some True"
    using one cmp by blast
  have c401: "\<not> (\<exists>user. select_by_email db (si_email v) = [user] \<and>
                bcrypt_compare d (si_password v) (u_password user) = Some False)"
    using one cmp by auto
  show ?thesis
    unfolding status_in_its_case_def
    apply (simp only: s taken c401 c200)
    apply simp
    done
qed

lemma signin_status:
  assumes schema: "signInSchema d (req_body req) = Inr v"
    and compare: "\<forall>h. bcrypt_compare d (si_password v) h \<noteq> None"
    and sign: "\<forall>c. \<exists>t. jwttoken_sign d c = Inr t"
  shows "\<exists>res. signin d req db = (Sent res, db) \<and> status_in_its_case d db v res"
proof -
  from select_by_email_single [of db "si_email v"] show ?thesis
  proof
    assume none: "select_by_email db (si_email v) = []"
    then have fresh: "\<forall>r\<in>set (users db). u_email r \<noteq> si_email v"
      by (simp add: select_by_email_empty)
    let ?R = "new_response\<lparr>res_status := 404, res_body := JObj [(''error'', JStr ''User not found'')]\<rparr>"
    have "signin d req db = (Sent ?R, db)"
      using signin_unknown [OF schema fresh] by (simp add: send_def)
    moreover have "status_in_its_case d db v ?R"
      by (rule status_404 [OF none]) simp
    ultimately show ?thesis by blast
  next
    assume "\<exists>user. select_by_email db (si_email v) = [user]"
    then obtain user where one: "select_by_email db (si_email v) = [user]" ..
    from compare have "bcrypt_compare d (si_password v) (u_password user) \<noteq> None" ..
    then obtain b where cmp: "bcrypt_compare d (si_password v) (u_password user) = Some b"
      by auto
    show ?thesis
    proof (cases b)
      case False
      with cmp have cmp': "bcrypt_compare d (si_password v) (u_password user) = Some False"
        by simp
      let ?R = "new_response\<lparr>res_status := 401,
                  res_body := JObj [(''error'', JStr ''Invalid credentials'')]\<rparr>"
      have "signin d req db = (Sent ?R, db)"
        using signin_wrong [OF schema one cmp'] by (simp add: send_def)
      moreover have "status_in_its_case d db v ?R"
        by (rule status_401 [OF one cmp']) simp
      ultimately show ?thesis by blast
    next
      case True
      with cmp have cmp': "bcrypt_compare d (si_password v) (u_password user) = Some True"
        by simp
      from sign obtain token where tok:
        "jwttoken_sign d \<lparr>c_id = u_id user, c_email = u_email user, c_role = u_role user\<rparr>
           = Inr token"
        by blast
      let ?R = "(cookies_set new_response ''token'' token)
                  \<lparr>res_status := 200, res_body := signed_in_body user\<rparr>"
      have "signin d req db = (Sent ?R, db)"
        using signin_valid [OF schema one cmp' tok] by (simp add: send_def)
      moreover have "status_in_its_case d db v ?R"
        by (rule status_200 [OF one cmp']) simp
      ultimately show ?thesis by blast
    qed
  qed
qed

text \<open>
  C2. Signing in, for a body the sign-in schema accepts as \<open>v\<close>.
  \<^item> No row has the email: \<open>authenticateUser\<close> throws "User not found" and the
    controller answers 404.
  \<^item> The query returns the row \<open>user\<close> and bcrypt's comparison of the password with
    the row's hash is false: \<open>authenticateUser\<close> throws "Invalid password" and the
    controller answers 401.
  \<^item> The comparison is true: \<open>authenticateUser\<close> returns the row's id, name, email,
    role and creation time, and the controller, once the token is signed, answers 200
    with the user's id, name, email and role.
  \<^item> Where neither bcrypt's comparison nor the signing of a token throws, the response
    has exactly one of the three statuses, each in exactly its case.
  The database is returned as it was in every case.
\<close>

theorem signin_three_outcomes:
  assumes "signInSchema d (req_body req) = Inr v"
  shows
    "((\<forall>r\<in>set (users db). u_email r \<noteq> si_email v) \<longrightarrow>
        authenticateUser d db v = (Inl (Error ''User not found''), db) \<and>
        signin d req db = (send new_response 404 (JObj [(''error'', JStr ''User not found'')]), db))
     \<and>
     (\<forall>user. select_by_email db (si_email v) = [user] \<and>
             bcrypt_compare d (si_password v) (u_password user) = Some False \<longrightarrow>
        authenticateUser d db v = (Inl (Error ''Invalid password''), db) \<and>
        signin d req db =
          (send new_response 401 (JObj [(''error'', JStr ''Invalid credentials'')]), db))
     \<and>
     (\<forall>user. select_by_email db (si_email v) = [user] \<and>
             bcrypt_compare d (si_password v) (u_password user) = Some True \<longrightarrow>
        authenticateUser d db v =
          (Inr \<lparr>a_id = u_id user, a_name = u_name user, a_email = u_email user,
                a_role = u_role user, a_created_at = u_created_at user\<rparr>, db) \<and>
        (\<forall>token.
           jwttoken_sign d \<lparr>c_id = u_id user, c_email = u_email user, c_role = u_role user\<rparr>
             = Inr token \<longrightarrow>
           signin d req db =
             (send (cookies_set new_response ''token'' token) 200 (signed_in_body user), db)))
     \<and>
     ((\<forall>h. bcrypt_compare d (si_password v) h \<noteq> None) \<and> (\<forall>c. \<exists>t. jwttoken_sign d c = Inr t) \<longrightarrow>
        (\<exists>res.
           signin d req db = (Sent res, db) \<and>
           (res_status res = 404 \<or> res_status res = 401 \<or> res_status res = 200) \<and>
           (res_status res = 404 \<longleftrightarrow> (\<forall>r\<in>set (users db). u_email r \<noteq> si_email v)) \<and>
           (res_status res = 401 \<longleftrightarrow>
              (\<exists>user. select_by_email db (si_email v) = [user] \<and>
                      bcrypt_compare d (si_password v) (u_password user) = Some False)) \<and>
           (res_status res = 200 \<longleftrightarrow>
              (\<exists>user. select_by_email db (si_email v) = [user] \<and>
                      bcrypt_compare d (si_password v) (u_password user) = Some True))))"
proof (intro conjI impI allI)
  assume "\<forall>r\<in>set (users db). u_email r \<noteq> si_email v"
  then show "authenticateUser d db v = (Inl (Error ''User not found''), db)"
    and "signin d req db = (send new_response 404 (JObj [(''error'', JStr ''User not found'')]), db)"
    using assms by (simp_all add: authenticateUser_unknown signin_unknown)
next
  fix user
  assume "select_by_email db (si_email v) = [user] \<and>
          bcrypt_compare d (si_password v) (u_password user) = Some False"
  then show "authenticateUser d db v = (Inl (Error ''Invalid password''), db)"
    and "signin d req db =
           (send new_response 401 (JObj [(''error'', JStr ''Invalid credentials'')]), db)"
    using assms by (simp_all add: authenticateUser_wrong signin_wrong)
next
  fix user
  assume "select_by_email db (si_email v) = [user] \<and>
          bcrypt_compare d (si_password v) (u_password user) = Some True"
  then show "authenticateUser d db v =
          (Inr \<lparr>a_id = u_id user, a_name = u_name user, a_email = u_email user,
                a_role = u_role user, a_created_at = u_created_at user\<rparr>, db)"
    by (simp add: authenticateUser_valid)
next
  fix user token
  assume "select_by_email db (si_email v) = [user] \<and>
          bcrypt_compare d (si_password v) (u_password user) = Some True"
    and "jwttoken_sign d \<lparr>c_id = u_id user, c_email = u_email user, c_role = u_role user\<rparr>
           = Inr token"
  then show "signin d req db =
          (send (cookies_set new_response ''token'' token) 200 (signed_in_body user), db)"
    using assms by (simp add: signin_valid)
next
  assume total: "(\<forall>h. bcrypt_compare d (si_password v) h \<noteq> None) \<and>
                 (\<forall>c. \<exists>t. jwttoken_sign d c = Inr t)"
  then have "\<exists>res. signin d req db = (Sent res, db) \<and> status_in_its_case d db v res"
    using signin_status [OF assms] by blast
  then show "\<exists>res.
           signin d req db = (Sent res, db) \<and>
           (res_status res = 404 \<or> res_status res = 401 \<or> res_status res = 200) \<and>
           (res_status res = 404 \<longleftrightarrow> (\<forall>r\<in>set (users db). u_email r \<noteq> si_email v)) \<and>
           (res_status res = 401 \<longleftrightarrow>
              (\<exists>user. select_by_email db (si_email v) = [user] \<and>
                      bcrypt_compare d (si_password v) (u_password user) = Some False)) \<and>
           (res_status res = 200 \<longleftrightarrow>
              (\<exists>user. select_by_email db (si_email v) = [user] \<and>
                      bcrypt_compare d (si_password v) (u_password user) = Some True))"
    unfolding status_in_its_case_def .
qed

theorem signin_three_outcomes_witness:
  "signin example_deps
     (example_request\<lparr>req_body := JObj [(''email'', JStr ''nobody@example.com''),
                                        (''password'', JStr ''password123'')]\<rparr>) example_db
   = (send new_response 404 (JObj [(''error'', JStr ''User not found'')]), example_db)
   \<and>
   signin example_deps
     (example_request\<lparr>req_body := JObj [(''email'', JStr ''john@example.com''),
                                        (''password'', JStr ''letmein'')]\<rparr>) example_db
   = (send new_response 401 (JObj [(''error'', JStr ''Invalid credentials'')]), example_db)
   \<and>
   signin example_deps
     (example_request\<lparr>req_body := JObj [(''email'', JStr ''john@example.com''),
                                        (''password'', JStr ''password123'')]\<rparr>) example_db
   = (send (cookies_set new_response ''token'' ''jwt.user.john@example.com'') 200
        (signed_in_body john_row), example_db)
   \<and>
   (\<exists>res.
      signin example_deps
        (example_request\<lparr>req_body := JObj [(''email'', JStr ''john@example.com''),
                                           (''password'', JStr ''password123'')]\<rparr>) example_db
      = (Sent res, example_db) \<and> res_status res = 200)"
proof -
  let ?nobody = "example_request\<lparr>req_body := JObj [(''email'', JStr ''nobody@example.com''),
                                        (''password'', JStr ''password123'')]\<rparr>"
  let ?wrong = "example_request\<lparr>req_body := JObj [(''email'', JStr ''john@example.com''),
                                        (''password'', JStr ''letmein'')]\<rparr>"
  let ?right = "example_request\<lparr>req_body := JObj [(''email'', JStr ''john@example.com''),
                                        (''password'', JStr ''password123'')]\<rparr>"
  let ?v1 = "\<lparr>si_email = ''nobody@example.com'', si_password = ''password123''\<rparr>"
  let ?v2 = "\<lparr>si_email = ''john@example.com'', si_password = ''letmein''\<rparr>"
  let ?v3 = "\<lparr>si_email = ''john@example.com'', si_password = ''password123''\<rparr>"
  have s1: "signInSchema example_deps (req_body ?nobody) = Inr ?v1"
    and s2: "signInSchema example_deps (req_body ?wrong) = Inr ?v2"
    and s3: "signInSchema example_deps (req_body ?right) = Inr ?v3"
    by (simp_all add: example_deps_def example_signInSchema_def str_field_def)
  have unknown: "\<forall>r\<in>set (users example_db). u_email r \<noteq> si_email ?v1"
    by (simp add: example_db_def john_row_def root_row_def)
  have wrong: "select_by_email example_db (si_email ?v2) = [john_row] \<and>
               bcrypt_compare example_deps (si_password ?v2) (u_password john_row) = Some False"
    by (simp add: select_by_email_def example_db_def john_row_def root_row_def example_deps_def)
  have right: "select_by_email example_db (si_email ?v3) = [john_row] \<and>
               bcrypt_compare example_deps (si_password ?v3) (u_password john_row) = Some True"
    by (simp add: select_by_email_def example_db_def john_row_def root_row_def example_deps_def)
  have sign: "jwttoken_sign example_deps
                \<lparr>c_id = u_id john_row, c_email = u_email john_row, c_role = u_role john_row\<rparr>
              = Inr ''jwt.user.john@example.com''"
    by (simp add: example_deps_def example_sign_def john_row_def)
  have total: "(\<forall>h. bcrypt_compare example_deps (si_password ?v3) h \<noteq> None) \<and>
               (\<forall>c. \<exists>t. jwttoken_sign example_deps c = Inr t)"
    by (simp add: example_deps_def example_sign_def)
  note t1 = signin_three_outcomes [OF s1, of example_db]
  note t2 = signin_three_outcomes [OF s2, of example_db]
  note t3 = signin_three_outcomes [OF s3, of example_db]
  from t1 unknown have r1: "signin example_deps ?nobody example_db
      = (send new_response 404 (JObj [(''error'', JStr ''User not found'')]), example_db)"
    by blast
  from t2 wrong have r2: "signin example_deps ?wrong example_db
      = (send new_response 401 (JObj [(''error'', JStr ''Invalid credentials'')]), example_db)"
    by blast
  from t3 right sign have r3: "signin example_deps ?right example_db
      = (send (cookies_set new_response ''token'' ''jwt.user.john@example.com'') 200
           (signed_in_body john_row), example_db)"
    by blast
  from t3 total right have r4: "\<exists>res. signin example_deps ?right example_db = (Sent res, example_db) \<and>
      res_status res = 200"
    by blast
  from r1 r2 r3 r4 show ?thesis by blast
qed

section \<open>What the auth services write\<close>

lemma rows_written_same: "rows_written db db = 0"
  by (simp add: rows_written_def)

lemma rows_written_append:
  assumes "row \<notin> set (users db)"
  shows "rows_written db (db\<lparr>users := users db @ [row], users_id_seq := n\<rparr>) = 1"
proof -
  have "filter (\<lambda>r. r \<notin> set (users db)) (users db) = []"
    by simp
  then show ?thesis
    using assms by (simp add: rows_written_def)
qed

lemma createUser_effect:
  "(\<exists>e. createUser d db w = (Inl e, db)) \<or>
   (\<exists>u row. createUser d db w =
               (Inr u, db\<lparr>users := users db @ [row], users_id_seq := users_id_seq db + 1\<rparr>) \<and>
             u_email row = su_email w \<and> (\<forall>r\<in>set (users db). u_email r \<noteq> su_email w))"
proof (cases "\<exists>r\<in>set (users db). u_email r = su_email w")
  case True
  then show ?thesis by (simp add: createUser_taken)
next
  case False
  then have fresh: "\<forall>r\<in>set (users db). u_email r \<noteq> su_email w" by simp
  show ?thesis
  proof (cases "bcrypt_hashSync d (su_password w) 12")
    case None
    from fresh have "select_by_email db (su_email w) = []"
      by (simp add: select_by_email_empty)
    with None show ?thesis
      by (simp add: createUser_def hashPassword_def)
  next
    case (Some h)
    let ?role = "case su_role w of None \<Rightarrow> ''user'' | Some r \<Rightarrow> r"
    let ?row = "\<lparr>u_id = users_id_seq db, u_name = su_name w, u_email = su_email w,
                 u_password = h, u_role = ?role, u_created_at = now d, u_updated_at = now d\<rparr>"
    let ?u = "\<lparr>a_id = users_id_seq db, a_name = su_name w, a_email = su_email w,
               a_role = ?role, a_created_at = now d\<rparr>"
    have "createUser d db w =
            (Inr ?u, db\<lparr>users := users db @ [?row], users_id_seq := users_id_seq db + 1\<rparr>) \<and>
          u_email ?row = su_email w \<and> (\<forall>r\<in>set (users db). u_email r \<noteq> su_email w)"
      using fresh by (simp add: createUser_fresh [OF fresh Some])
    then show ?thesis by blast
  qed
qed

text \<open>
  C3, as stated, fails on the code: \<open>authenticateUser\<close> only reads. Signing John in
  on the example database succeeds and returns the database as it was, so the number of
  rows written is 0, not 1.
\<close>

theorem authenticate_writes_no_row:
  "authenticateUser example_deps example_db
     \<lparr>si_email = ''john@example.com'', si_password = ''password123''\<rparr>
   = (Inr \<lparr>a_id = 2, a_name = ''John'', a_email = ''john@example.com'', a_role = ''user'',
           a_created_at = 20\<rparr>, example_db)
   \<and>
   rows_written example_db
     (snd (authenticateUser example_deps example_db
             \<lparr>si_email = ''john@example.com'', si_password = ''password123''\<rparr>)) \<noteq> 1"
proof -
  have "authenticateUser example_deps example_db
          \<lparr>si_email = ''john@example.com'', si_password = ''password123''\<rparr>
        = (Inr \<lparr>a_id = 2, a_name = ''John'', a_email = ''john@example.com'', a_role = ''user'',
                a_created_at = 20\<rparr>, example_db)"
    by (simp add: authenticateUser_def select_by_email_def comparePassword_def example_db_def
        john_row_def root_row_def example_deps_def)
  then show ?thesis
    by (simp add: rows_written_same)
qed

text \<open>
  C3, amended. \<open>authenticateUser\<close> returns the database unchanged, whatever its
  outcome. \<open>createUser\<close> returns it unchanged when it throws; when it returns a user it
  has appended exactly one row, which was not in the table, has left every other row as
  it was, and has advanced the id sequence by one.
\<close>

theorem auth_services_writes:
  "snd (authenticateUser d db v) = db \<and>
   (\<forall>e db'. createUser d db w = (Inl e, db') \<longrightarrow> db' = db) \<and>
   (\<forall>u db'. createUser d db w = (Inr u, db') \<longrightarrow>
      (\<exists>row. db' = db\<lparr>users := users db @ [row], users_id_seq := users_id_seq db + 1\<rparr> \<and>
             row \<notin> set (users db)) \<and>
      rows_written db db' = 1)"
proof (intro conjI allI impI)
  show "snd (authenticateUser d db v) = db"
    by (rule authenticateUser_database)
next
  fix e db'
  assume "createUser d db w = (Inl e, db')"
  with createUser_effect [of d db w] show "db' = db" by auto
next
  fix u db'
  assume ok: "createUser d db w = (Inr u, db')"
  with createUser_effect [of d db w] obtain row where
    db': "db' = db\<lparr>users := users db @ [row], users_id_seq := users_id_seq db + 1\<rparr>"
    and email: "u_email row = su_email w"
    and fresh: "\<forall>r\<in>set (users db). u_email r \<noteq> su_email w"
    by auto
  from email fresh have new: "row \<notin> set (users db)" by auto
  with db' show "\<exists>row. db' = db\<lparr>users := users db @ [row], users_id_seq := users_id_seq db + 1\<rparr> \<and>
             row \<notin> set (users db)"
    by blast
  from new show "rows_written db db' = 1"
    unfolding db' by (rule rows_written_append)
qed

theorem auth_services_writes_witness:
  "(\<exists>u db'. createUser example_deps example_db
              \<lparr>su_name = ''Ann'', su_email = ''ann@example.com'', su_password = ''hunter22'',
               su_role = None\<rparr> = (Inr u, db') \<and>
            rows_written example_db db' = 1 \<and> length (users db') = 3)
   \<and>
   (\<exists>e. createUser example_deps example_db
           \<lparr>su_name = ''Johnny'', su_email = ''john@example.com'', su_password = ''hunter22'',
            su_role = None\<rparr> = (Inl e, example_db))"
proof -
  let ?ann = "\<lparr>su_name = ''Ann'', su_email = ''ann@example.com'', su_password = ''hunter22'',
               su_role = None\<rparr>"
  let ?johnny = "\<lparr>su_name = ''Johnny'', su_email = ''john@example.com'',
                  su_password = ''hunter22'', su_role = None\<rparr>"
  let ?u = "\<lparr>a_id = 3, a_name = ''Ann'', a_email = ''ann@example.com'', a_role = ''user'',
             a_created_at = 1000\<rparr>"
  let ?db' = "\<lparr>users = [root_row, john_row,
                 \<lparr>u_id = 3, u_name = ''Ann'', u_email = ''ann@example.com'',
                  u_password = ''$2b$12$22retnuh'', u_role = ''user'',
                  u_created_at = 1000, u_updated_at = 1000\<rparr>],
               users_id_seq = 4\<rparr>"
  have fresh: "\<forall>r\<in>set (users example_db). u_email r \<noteq> su_email ?ann"
    by (simp add: example_db_def john_row_def root_row_def)
  have hash: "bcrypt_hashSync example_deps (su_password ?ann) 12 = Some ''$2b$12$22retnuh''"
    by (simp add: example_deps_def)
  have taken: "\<exists>r\<in>set (users example_db). u_email r = su_email ?johnny"
    by (simp add: example_db_def john_row_def)
  have ann: "createUser example_deps example_db ?ann = (Inr ?u, ?db')"
    using createUser_fresh [OF fresh hash] by (simp add: example_db_def example_deps_def)
  have johnny: "createUser example_deps example_db ?johnny
                  = (Inl (Error ''User with this email already exists''), example_db)"
    by (rule createUser_taken [OF taken])
  from auth_services_writes [of example_deps example_db _ ?ann] ann
  have "rows_written example_db ?db' = 1"
    by blast
  then show ?thesis using ann johnny by auto
qed

section \<open>Sign-up, then sign-in\<close>

text \<open>
  C7. Take sign-up data \<open>v\<close> whose email no row has yet, and a bcrypt whose comparison
  accepts the password of \<open>v\<close> against the hash it made of it. Then \<open>createUser\<close>
  returns a user, and \<open>authenticateUser\<close> with the same email and password, on the
  database \<open>createUser\<close> returned, returns a user with the same id.
\<close>

theorem signup_then_signin_same_id:
  assumes fresh: "\<forall>r\<in>set (users db). u_email r \<noteq> su_email v"
    and hash: "bcrypt_hashSync d (su_password v) 12 = Some h"
    and cmp: "bcrypt_compare d (su_password v) h = Some True"
  shows "\<exists>u db' u'.
           createUser d db v = (Inr u, db') \<and>
           authenticateUser d db' \<lparr>si_email = su_email v, si_password = su_password v\<rparr>
             = (Inr u', db') \<and>
           a_id u' = a_id u"
proof -
  let ?role = "case su_role v of None \<Rightarrow> ''user'' | Some r \<Rightarrow> r"
  let ?row = "\<lparr>u_id = users_id_seq db, u_name = su_name v, u_email = su_email v,
               u_password = h, u_role = ?role, u_created_at = now d, u_updated_at = now d\<rparr>"
  let ?u = "\<lparr>a_id = users_id_seq db, a_name = su_name v, a_email = su_email v,
             a_role = ?role, a_created_at = now d\<rparr>"
  let ?db' = "db\<lparr>users := users db @ [?row], users_id_seq := users_id_seq db + 1\<rparr>"
  let ?creds = "\<lparr>si_email = su_email v, si_password = su_password v\<rparr>"
  have created: "createUser d db v = (Inr ?u, ?db')"
    by (rule createUser_fresh [OF fresh hash])
  from fresh have "filter (\<lambda>r. u_email r = su_email v) (users db) = []"
    by (simp add: filter_empty_conv)
  then have found: "select_by_email ?db' (si_email ?creds) = [?row]"
    by (simp add: select_by_email_def)
  have "bcrypt_compare d (si_password ?creds) (u_password ?row) = Some True"
    using cmp by simp
  from authenticateUser_valid [OF found this]
  have "authenticateUser d ?db' ?creds = (Inr ?u, ?db')"
    by simp
  with created show ?thesis by auto
qed

theorem signup_then_signin_same_id_witness:
  "\<exists>u db' u'.
     createUser example_deps example_db
       \<lparr>su_name = ''Ann'', su_email = ''ann@example.com'', su_password = ''hunter22'',
        su_role = None\<rparr> = (Inr u, db') \<and>
     authenticateUser example_deps db' \<lparr>si_email = ''ann@example.com'', si_password = ''hunter22''\<rparr>
       = (Inr u', db') \<and>
     a_id u' = a_id u"
proof -
  let ?ann = "\<lparr>su_name = ''Ann'', su_email = ''ann@example.com'', su_password = ''hunter22'',
               su_role = None\<rparr>"
  have fresh: "\<forall>r\<in>set (users example_db). u_email r \<noteq> su_email ?ann"
    by (simp add: example_db_def john_row_def root_row_def)
  have hash: "bcrypt_hashSync example_deps (su_password ?ann) 12 = Some ''$2b$12$22retnuh''"
    by (simp add: example_deps_def)
  have cmp: "bcrypt_compare example_deps (su_password ?ann) ''$2b$12$22retnuh'' = Some True"
    by (simp add: example_deps_def)
  from signup_then_signin_same_id [OF fresh hash cmp] show ?thesis
    by simp
qed

section \<open>The token middleware and the routes\<close>

lemma find_route_member:
  "find_route rs m segments = Some (r, params) \<Longrightarrow> r \<in> set rs"
  by (induction rs) (auto split: if_splits option.splits)

lemma router_middleware:
  "r \<in> set router \<Longrightarrow> r_middleware r = [AuthenticateToken]"
  by (auto simp: router_def)

lemma cookie_token_params [simp]:
  "cookie_token (req\<lparr>req_params := params\<rparr>) = cookie_token req"
  by (simp add: cookie_token_def)

lemma authenticateToken_no_token:
  assumes "\<not> truthy (cookie_token req)"
  shows "authenticateToken d req =
           Stop (unauthorized ''Access denied'' ''No authentication token provided'')"
  using assms by (simp add: authenticateToken_def truthy_def split: option.splits)

lemma authenticateToken_bad_token:
  assumes "cookie_token req = Some t" and "jwttoken_verify d t = Inl e"
  shows "\<exists>res. authenticateToken d req = Stop res \<and> res_status res = 401"
  using assms by (simp add: authenticateToken_def unauthorized_def)

lemma authenticateToken_good_token:
  assumes "cookie_token req = Some t" and "t \<noteq> []" and "jwttoken_verify d t = Inr decoded"
  shows "authenticateToken d req = Pass (req\<lparr>req_user := Some decoded\<rparr>)"
  using assms by (simp add: authenticateToken_def)

lemma serve_protected:
  assumes "find_route router m segments = Some (r, params)"
  shows "serve d handlers m segments req db =
           Some (case authenticateToken d (req\<lparr>req_params := params\<rparr>) of
                   Stop res \<Rightarrow> (Sent res, db)
                 | Pass req' \<Rightarrow> handlers (r_controller r) req' db)"
proof -
  from assms have "r_middleware r = [AuthenticateToken]"
    by (intro router_middleware find_route_member)
  with assms show ?thesis
    by (simp add: serve_def split: mw_result.split)
qed

text \<open>
  C8. Take a request that the users router matches to a route. If its token cookie is
  absent (or empty), or the verification of the token throws, the response is a 401
  that is the same whatever the handlers are, and the database is untouched: no handler
  ran. If the token verifies, the outcome is that of the route's handler, run on the
  request with the decoded claims as \<open>req.user\<close>.
\<close>

theorem token_guards_every_route:
  assumes "find_route router m segments = Some (r, params)"
  shows
    "((\<not> truthy (cookie_token req) \<or>
       (\<exists>t e. cookie_token req = Some t \<and> jwttoken_verify d t = Inl e)) \<longrightarrow>
        (\<exists>res. res_status res = 401 \<and>
               (\<forall>handlers. serve d handlers m segments req db = Some (Sent res, db))))
     \<and>
     (\<forall>t decoded.
        cookie_token req = Some t \<and> t \<noteq> [] \<and> jwttoken_verify d t = Inr decoded \<longrightarrow>
          (\<forall>handlers.
             serve d handlers m segments req db =
               Some (handlers (r_controller r)
                       (req\<lparr>req_params := params, req_user := Some decoded\<rparr>) db)))"
proof (intro conjI impI allI)
  assume "\<not> truthy (cookie_token req) \<or>
          (\<exists>t e. cookie_token req = Some t \<and> jwttoken_verify d t = Inl e)"
  then have "\<exists>res. authenticateToken d (req\<lparr>req_params := params\<rparr>) = Stop res \<and>
               res_status res = 401"
  proof
    assume "\<not> truthy (cookie_token req)"
    then show ?thesis
      by (simp add: authenticateToken_no_token unauthorized_def)
  next
    assume "\<exists>t e. cookie_token req = Some t \<and> jwttoken_verify d t = Inl e"
    then obtain t e where "cookie_token (req\<lparr>req_params := params\<rparr>) = Some t"
      and "jwttoken_verify d t = Inl e"
      by auto
    then show ?thesis by (rule authenticateToken_bad_token)
  qed
  then obtain res where stop: "authenticateToken d (req\<lparr>req_params := params\<rparr>) = Stop res"
    and status: "res_status res = 401"
    by blast
  have "serve d handlers m segments req db = Some (Sent res, db)" for handlers
    by (simp add: serve_protected [OF assms] stop)
  with status show "\<exists>res. res_status res = 401 \<and>
      (\<forall>handlers. serve d handlers m segments req db = Some (Sent res, db))"
    by blast
next
  fix t decoded handlers
  assume "cookie_token req = Some t \<and> t \<noteq> [] \<and> jwttoken_verify d t = Inr decoded"
  then have "authenticateToken d (req\<lparr>req_params := params\<rparr>) =
               Pass (req\<lparr>req_params := params, req_user := Some decoded\<rparr>)"
    by (simp add: authenticateToken_good_token)
  then show "serve d handlers m segments req db =
               Some (handlers (r_controller r)
                       (req\<lparr>req_params := params, req_user := Some decoded\<rparr>) db)"
    by (simp add: serve_protected [OF assms])
qed

theorem token_guards_every_route_witness:
  "(\<exists>res. res_status res = 401 \<and>
      (\<forall>handlers. serve example_deps handlers DELETE [''2''] example_request example_db
                    = Some (Sent res, example_db)))
   \<and>
   (\<forall>handlers.
      serve example_deps handlers DELETE [''2'']
        (example_request\<lparr>req_cookies := Some [(''token'', ''jwt.admin.root@example.com'')]\<rparr>)
        example_db
      = Some (handlers DeleteUser
                (example_request\<lparr>req_cookies := Some [(''token'', ''jwt.admin.root@example.com'')],
                                  req_params := [(''id'', ''2'')],
                                  req_user := Some \<lparr>c_id = 1, c_email = ''root@example.com'',
                                                    c_role = ''admin''\<rparr>\<rparr>)
                example_db))"
proof -
  let ?r = "\<lparr>r_method = DELETE, r_path = ''/:id'', r_middleware = [AuthenticateToken],
             r_controller = DeleteUser\<rparr>"
  let ?req = "example_request\<lparr>req_cookies := Some [(''token'', ''jwt.admin.root@example.com'')]\<rparr>"
  have route: "find_route router DELETE [''2''] = Some (?r, [(''id'', ''2'')])"
    by (simp add: router_def match_path_def)
  have absent: "\<not> truthy (cookie_token example_request)"
    by (simp add: truthy_def cookie_token_def example_request_def)
  have valid: "cookie_token ?req = Some ''jwt.admin.root@example.com'' \<and>
               ''jwt.admin.root@example.com'' \<noteq> [] \<and>
               jwttoken_verify example_deps ''jwt.admin.root@example.com''
                 = Inr \<lparr>c_id = 1, c_email = ''root@example.com'', c_role = ''admin''\<rparr>"
    by (simp add: cookie_token_def example_deps_def example_verify_def)
  from token_guards_every_route [OF route, of example_request example_deps example_db] absent
  have first: "\<exists>res. res_status res = 401 \<and>
      (\<forall>handlers. serve example_deps handlers DELETE [''2''] example_request example_db
                    = Some (Sent res, example_db))"
    by blast
  from token_guards_every_route [OF route, of ?req example_deps example_db] valid
  have second: "\<forall>handlers.
      serve example_deps handlers DELETE [''2''] ?req example_db
      = Some (handlers (r_controller ?r)
                (?req\<lparr>req_params := [(''id'', ''2'')],
                       req_user := Some \<lparr>c_id = 1, c_email = ''root@example.com'',
                                         c_role = ''admin''\<rparr>\<rparr>)
                example_db)"
    by blast
  from first second show ?thesis by simp
qed

section \<open>Sign-up issues the token\<close>

lemma createUser_returns:
  assumes "createUser d db v = (Inr u, db')"
  shows "\<exists>row. db' = db\<lparr>users := users db @ [row], users_id_seq := users_id_seq db + 1\<rparr> \<and>
               u_id row = a_id u \<and> u_name row = a_name u \<and> u_email row = a_email u \<and>
               u_role row = a_role u \<and> a_id u = users_id_seq db \<and> a_email u = su_email v"
proof (cases "\<exists>r\<in>set (users db). u_email r = su_email v")
  case True
  with assms show ?thesis by (simp add: createUser_taken)
next
  case False
  then have fresh: "\<forall>r\<in>set (users db). u_email r \<noteq> su_email v" by simp
  then have none: "select_by_email db (su_email v) = []"
    by (simp add: select_by_email_empty)
  show ?thesis
  proof (cases "bcrypt_hashSync d (su_password v) 12")
    case None
    with assms none show ?thesis
      by (simp add: createUser_def hashPassword_def)
  next
    case (Some h)
    from assms show ?thesis
      unfolding createUser_fresh [OF fresh Some] by auto
  qed
qed

text \<open>
  C9. Whenever \<open>signup\<close> answers 201, the body was accepted by the schema,
  \<open>createUser\<close> returned the user \<open>u\<close> of the one row it appended, the token is
  \<open>jwttoken.sign\<close> of \<open>{id, email, role}\<close> of \<open>u\<close>, the response sets the cookie
  \<open>token\<close> to it, and the body carries the id, name, email and role of \<open>u\<close>.
\<close>

theorem signup_sets_token_cookie:
  assumes "signup d req db = (Sent res, db')" and "res_status res = 201"
  shows "\<exists>v u token row.
           signupSchema d (req_body req) = Inr v \<and>
           createUser d db v = (Inr u, db') \<and>
           db' = db\<lparr>users := users db @ [row], users_id_seq := users_id_seq db + 1\<rparr> \<and>
           u_id row = a_id u \<and> u_email row = a_email u \<and> u_role row = a_role u \<and>
           jwttoken_sign d \<lparr>c_id = a_id u, c_email = a_email u, c_role = a_role u\<rparr> = Inr token \<and>
           res_cookies res = [(''token'', token)] \<and>
           res_body res =
             JObj [(''success'', JBool True),
                   (''message'', JStr ''User registered successfully''),
                   (''user'', JObj [(''id'', JNum (a_id u)), (''name'', JStr (a_name u)),
                                    (''email'', JStr (a_email u)), (''role'', JStr (a_role u))])]"
proof -
  from assms obtain v where schema: "signupSchema d (req_body req) = Inr v"
    by (cases "signupSchema d (req_body req)") (auto simp: signup_def send_def new_response_def)
  obtain result db1 where cu: "createUser d db v = (result, db1)"
    by (cases "createUser d db v") auto
  from assms schema cu obtain u where u: "result = Inr u"
    by (cases result)
      (auto simp: signup_def send_def new_response_def Let_def split: if_splits)
  from assms schema cu u obtain token where
    tok: "jwttoken_sign d \<lparr>c_id = a_id u, c_email = a_email u, c_role = a_role u\<rparr> = Inr token"
    by (cases "jwttoken_sign d \<lparr>c_id = a_id u, c_email = a_email u, c_role = a_role u\<rparr>")
      (auto simp: signup_def send_def new_response_def Let_def split: if_splits)
  from cu u have created: "createUser d db v = (Inr u, db1)" by simp
  from signup_fresh [OF schema created tok] assms
  have db: "db1 = db'"
    and res: "res = (cookies_set new_response ''token'' token)
                \<lparr>res_status := 201,
                 res_body := JObj [(''success'', JBool True),
                   (''message'', JStr ''User registered successfully''),
                   (''user'', JObj [(''id'', JNum (a_id u)), (''name'', JStr (a_name u)),
                                    (''email'', JStr (a_email u)), (''role'', JStr (a_role u))])]\<rparr>"
    by (simp_all add: send_def)
  from createUser_returns [OF created] db obtain row where
    "db' = db\<lparr>users := users db @ [row], users_id_seq := users_id_seq db + 1\<rparr>"
    "u_id row = a_id u" "u_email row = a_email u" "u_role row = a_role u"
    by auto
  moreover have "res_cookies res = [(''token'', token)]"
    by (simp add: res cookies_set_def new_response_def)
  moreover have "res_body res =
             JObj [(''success'', JBool True),
                   (''message'', JStr ''User registered successfully''),
                   (''user'', JObj [(''id'', JNum (a_id u)), (''name'', JStr (a_name u)),
                                    (''email'', JStr (a_email u)), (''role'', JStr (a_role u))])]"
    by (simp add: res)
  ultimately show ?thesis
    using schema created db tok by blast
qed

theorem signup_sets_token_cookie_witness:
  "\<exists>res db'.
     signup example_deps
       (example_request\<lparr>req_body := JObj [(''name'', JStr ''Ann''),
                                          (''email'', JStr ''ann@example.com''),
                                          (''password'', JStr ''hunter22'')]\<rparr>) example_db
     = (Sent res, db') \<and>
     res_status res = 201 \<and>
     (\<exists>(u::auth_user) token.
        jwttoken_sign example_deps \<lparr>c_id = a_id u, c_email = a_email u, c_role = a_role u\<rparr>
          = Inr token \<and>
        res_cookies res = [(''token'', token)])"
proof -
  let ?ann = "example_request\<lparr>req_body := JObj [(''name'', JStr ''Ann''),
                  (''email'', JStr ''ann@example.com''), (''password'', JStr ''hunter22'')]\<rparr>"
  let ?res = "\<lparr>res_status = 201,
               res_body = JObj [(''success'', JBool True),
                   (''message'', JStr ''User registered successfully''),
                   (''user'', JObj [(''id'', JNum 3), (''name'', JStr ''Ann''),
                                    (''email'', JStr ''ann@example.com''), (''role'', JStr ''user'')])],
               res_cookies = [(''token'', ''jwt.user.ann@example.com'')]\<rparr>"
  let ?db' = "\<lparr>users = [root_row, john_row,
                 \<lparr>u_id = 3, u_name = ''Ann'', u_email = ''ann@example.com'',
                  u_password = ''$2b$12$22retnuh'', u_role = ''user'',
                  u_created_at = 1000, u_updated_at = 1000\<rparr>],
               users_id_seq = 4\<rparr>"
  have run: "signup example_deps ?ann example_db = (Sent ?res, ?db')"
    by (simp add: signup_def createUser_def select_by_email_def hashPassword_def insert_users_def
        example_deps_def example_signupSchema_def str_field_def example_sign_def example_db_def
        john_row_def root_row_def send_def cookies_set_def new_response_def Let_def)
  have status: "res_status ?res = 201"
    by simp
  from signup_sets_token_cookie [OF run status]
  have "\<exists>(u::auth_user) token.
        jwttoken_sign example_deps \<lparr>c_id = a_id u, c_email = a_email u, c_role = a_role u\<rparr>
          = Inr token \<and>
        res_cookies ?res = [(''token'', token)]"
    by blast
  with run status show ?thesis
    by (intro exI [of _ ?res] exI [of _ ?db'] conjI)
qed

section \<open>Reading users\<close>

lemma filter_unique_key:
  "distinct (map f xs) \<Longrightarrow> x \<in> set xs \<Longrightarrow> filter (\<lambda>r. f r = f x) xs = [x]"
proof (induction xs)
  case Nil
  then show ?case by simp
next
  case (Cons y ys)
  show ?case
  proof (cases "y = x")
    case True
    with Cons.prems have "f x \<notin> f ` set ys" by simp
    then have "\<forall>r\<in>set ys. f r \<noteq> f x" by (metis imageI)
    then have "filter (\<lambda>r. f r = f x) ys = []"
      by (simp add: filter_empty_conv)
    with True show ?thesis by simp
  next
    case False
    with Cons.prems have "x \<in> set ys" and "f y \<noteq> f x" and "distinct (map f ys)"
      by auto
    with Cons.IH show ?thesis by simp
  qed
qed

lemma json_of_view_fields:
  "json_of_view (view r) =
     JObj [(''id'', JNum (u_id r)), (''email'', JStr (u_email r)),
               (''name'', JStr (u_name r)), (''role'', JStr (u_role r)),
               (''created_at'', JNum (int (u_created_at r))),
               (''updated_at'', JNum (int (u_updated_at r)))]"
  by (simp add: json_of_view_def view_def)

lemma getAllUsers_reply:
  "getAllUsers d req db =
     (send new_response 200
        (JObj [(''success'', JBool True),
               (''message'', JStr ''All users retrieved successfully''),
               (''users'', JArr (map (\<lambda>r. json_of_view (view r)) (users db))),
               (''count'', JNum (int (length (users db))))]), db)"
  by (simp add: getAllUsers_def getAllUsers_service_def comp_def)

lemma getUserById_reply:
  assumes "userIdSchema d (map_of (req_params req) ''id'') = Inr i"
    and "select_by_id db i = Inr [row]"
  shows "getUserById d req db =
           (send new_response 200
              (JObj [(''success'', JBool True),
                     (''message'', JStr ''User retrieved successfully''),
                     (''user'', json_of_view (view row))]), db)"
  using assms by (simp add: getUserById_def getUserById_service_def)

text \<open>
  C10. Every route of the users router has \<open>authenticateToken\<close> as its only middleware:
  \<open>requireRole\<close> is on none. For a request whose token verifies, to whatever claims
  (any id, any role): \<open>GET /\<close> answers 200 with the id, email, name, role and both
  timestamps of every row of the table, in the table's order, and their number; and
  \<open>GET /:id\<close>, for the id of any row of the table (ids being the primary key, and
  values of the column's 32-bit type), answers 200 with the id, email, name, role and
  both timestamps of that row.
\<close>

theorem reads_open_to_every_role:
  "(\<forall>r\<in>set router. \<forall>m\<in>set (r_middleware r). m = AuthenticateToken)
   \<and>
   (\<forall>t caller.
      cookie_token req = Some t \<and> t \<noteq> [] \<and> jwttoken_verify d t = Inr caller \<longrightarrow>
        users_routes d GET [] req db =
          Some (send new_response 200
                  (JObj [(''success'', JBool True),
                         (''message'', JStr ''All users retrieved successfully''),
                         (''users'',
                          JArr (map (\<lambda>r.
             JObj [(''id'', JNum (u_id r)), (''email'', JStr (u_email r)),
               (''name'', JStr (u_name r)), (''role'', JStr (u_role r)),
               (''created_at'', JNum (int (u_created_at r))),
               (''updated_at'', JNum (int (u_updated_at r)))])
                                 (users db))),
                         (''count'', JNum (int (length (users db))))]), db)
        \<and>
        (\<forall>s row.
           s \<noteq> [] \<and> row \<in> set (users db) \<and> distinct (map u_id (users db)) \<and>
           int4 (u_id row) \<and> userIdSchema d (Some s) = Inr (u_id row) \<longrightarrow>
             users_routes d GET [s] req db =
               Some (send new_response 200
                       (JObj [(''success'', JBool True),
                              (''message'', JStr ''User retrieved successfully''),
                              (''user'',
             JObj [(''id'', JNum (u_id row)), (''email'', JStr (u_email row)),
               (''name'', JStr (u_name row)), (''role'', JStr (u_role row)),
               (''created_at'', JNum (int (u_created_at row))),
               (''updated_at'', JNum (int (u_updated_at row)))])]), db)))"
proof (intro conjI ballI allI impI)
  fix r m
  assume "r \<in> set router" and "m \<in> set (r_middleware r)"
  then show "m = AuthenticateToken"
    by (simp add: router_middleware)
next
  fix t caller
  assume valid: "cookie_token req = Some t \<and> t \<noteq> [] \<and> jwttoken_verify d t = Inr caller"
  let ?list = "\<lparr>r_method = GET, r_path = ''/'', r_middleware = [AuthenticateToken],
                r_controller = GetAllUsers\<rparr>"
  have route: "find_route router GET [] = Some (?list, [])"
    by (simp add: router_def match_path_def)
  from valid have "authenticateToken d (req\<lparr>req_params := []\<rparr>) =
                     Pass (req\<lparr>req_params := [], req_user := Some caller\<rparr>)"
    by (simp add: authenticateToken_good_token)
  then show "users_routes d GET [] req db =
          Some (send new_response 200
                  (JObj [(''success'', JBool True),
                         (''message'', JStr ''All users retrieved successfully''),
                         (''users'',
                          JArr (map (\<lambda>r.
             JObj [(''id'', JNum (u_id r)), (''email'', JStr (u_email r)),
               (''name'', JStr (u_name r)), (''role'', JStr (u_role r)),
               (''created_at'', JNum (int (u_created_at r))),
               (''updated_at'', JNum (int (u_updated_at r)))])
                                 (users db))),
                         (''count'', JNum (int (length (users db))))]), db)"
    by (simp add: users_routes_def serve_protected [OF route] getAllUsers_reply
        json_of_view_fields)
next
  fix t caller s row
  assume valid: "cookie_token req = Some t \<and> t \<noteq> [] \<and> jwttoken_verify d t = Inr caller"
    and target: "s \<noteq> [] \<and> row \<in> set (users db) \<and> distinct (map u_id (users db)) \<and>
                 int4 (u_id row) \<and> userIdSchema d (Some s) = Inr (u_id row)"
  let ?get = "\<lparr>r_method = GET, r_path = ''/:id'', r_middleware = [AuthenticateToken],
               r_controller = GetUserById\<rparr>"
  from target have route: "find_route router GET [s] = Some (?get, [(''id'', s)])"
    by (simp add: router_def match_path_def)
  from valid have pass: "authenticateToken d (req\<lparr>req_params := [(''id'', s)]\<rparr>) =
                     Pass (req\<lparr>req_params := [(''id'', s)], req_user := Some caller\<rparr>)"
    by (simp add: authenticateToken_good_token)
  from target have "filter (\<lambda>r. u_id r = u_id row) (users db) = [row]"
    by (simp add: filter_unique_key)
  with target have found: "select_by_id db (u_id row) = Inr [row]"
    by (simp add: select_by_id_def)
  from target have schema:
    "userIdSchema d (map_of (req_params (req\<lparr>req_params := [(''id'', s)], req_user := Some caller\<rparr>)) ''id'')
       = Inr (u_id row)"
    by simp
  show "users_routes d GET [s] req db =
               Some (send new_response 200
                       (JObj [(''success'', JBool True),
                              (''message'', JStr ''User retrieved successfully''),
                              (''user'',
             JObj [(''id'', JNum (u_id row)), (''email'', JStr (u_email row)),
               (''name'', JStr (u_name row)), (''role'', JStr (u_role row)),
               (''created_at'', JNum (int (u_created_at row))),
               (''updated_at'', JNum (int (u_updated_at row)))])]), db)"
    by (simp add: users_routes_def serve_protected [OF route] pass
        getUserById_reply [OF schema found] json_of_view_fields)
qed

theorem reads_open_to_every_role_witness:
  "users_routes example_deps GET []
     (example_request\<lparr>req_cookies := Some [(''token'', ''jwt.user.john@example.com'')]\<rparr>)
     example_db
   = Some (Sent \<lparr>res_status = 200,
                 res_body =
                   JObj [(''success'', JBool True),
                         (''message'', JStr ''All users retrieved successfully''),
                         (''users'',
                          JArr [JObj [(''id'', JNum 1), (''email'', JStr ''root@example.com''),
                                      (''name'', JStr ''Root''), (''role'', JStr ''admin''),
                                      (''created_at'', JNum 10), (''updated_at'', JNum 10)],
                                JObj [(''id'', JNum 2), (''email'', JStr ''john@example.com''),
                                      (''name'', JStr ''John''), (''role'', JStr ''user''),
                                      (''created_at'', JNum 20), (''updated_at'', JNum 20)]]),
                         (''count'', JNum 2)],
                 res_cookies = []\<rparr>, example_db)
   \<and>
   users_routes example_deps GET [''1'']
     (example_request\<lparr>req_cookies := Some [(''token'', ''jwt.user.john@example.com'')]\<rparr>)
     example_db
   = Some (Sent \<lparr>res_status = 200,
                 res_body =
                   JObj [(''success'', JBool True),
                         (''message'', JStr ''User retrieved successfully''),
                         (''user'',
                          JObj [(''id'', JNum 1), (''email'', JStr ''root@example.com''),
                                (''name'', JStr ''Root''), (''role'', JStr ''admin''),
                                (''created_at'', JNum 10), (''updated_at'', JNum 10)])],
                 res_cookies = []\<rparr>, example_db)"
proof -
  let ?req = "example_request\<lparr>req_cookies := Some [(''token'', ''jwt.user.john@example.com'')]\<rparr>"
  let ?john = "\<lparr>c_id = 2, c_email = ''john@example.com'', c_role = ''user''\<rparr>"
  have valid: "cookie_token ?req = Some ''jwt.user.john@example.com'' \<and>
               ''jwt.user.john@example.com'' \<noteq> [] \<and>
               jwttoken_verify example_deps ''jwt.user.john@example.com'' = Inr ?john"
    by (simp add: cookie_token_def example_deps_def example_verify_def)
  have target: "''1'' \<noteq> [] \<and> root_row \<in> set (users example_db) \<and>
                distinct (map u_id (users example_db)) \<and> int4 (u_id root_row) \<and>
                userIdSchema example_deps (Some ''1'') = Inr (u_id root_row)"
    by (simp add: example_db_def root_row_def john_row_def example_deps_def
        example_userIdSchema_def digit_def int4_def)
  note open_reads = reads_open_to_every_role [of ?req example_deps example_db]
  from open_reads valid
  have list: "users_routes example_deps GET [] ?req example_db =
          Some (send new_response 200
                  (JObj [(''success'', JBool True),
                         (''message'', JStr ''All users retrieved successfully''),
                         (''users'',
                          JArr (map (\<lambda>r.
             JObj [(''id'', JNum (u_id r)), (''email'', JStr (u_email r)),
               (''name'', JStr (u_name r)), (''role'', JStr (u_role r)),
               (''created_at'', JNum (int (u_created_at r))),
               (''updated_at'', JNum (int (u_updated_at r)))])
                                 (users example_db))),
                         (''count'', JNum (int (length (users example_db))))]), example_db)"
    by blast
  from open_reads valid target
  have one: "users_routes example_deps GET [''1''] ?req example_db
     = Some (send new_response 200
             (JObj [(''success'', JBool True),
                    (''message'', JStr ''User retrieved successfully''),
                    (''user'',
             JObj [(''id'', JNum (u_id root_row)), (''email'', JStr (u_email root_row)),
               (''name'', JStr (u_name root_row)), (''role'', JStr (u_role root_row)),
               (''created_at'', JNum (int (u_created_at root_row))),
               (''updated_at'', JNum (int (u_updated_at root_row)))])]), example_db)"
    by blast
  from list one show ?thesis
    by (simp add: send_def new_response_def example_db_def root_row_def john_row_def)
qed

section \<open>Deleting a user\<close>








section \<open>Updating a user\<close>














section \<open>What a response shows of a password\<close>

lemma signup_rejected:
  assumes "signupSchema d (req_body req) = Inl details"
  shows "signup d req db =
           (send new_response 400
              (JObj [(''error'', JStr ''Validation failedhgfdsfgh''), (''details'', details),
                     (''data'', req_body req)]), db)"
  using assms by (simp add: signup_def)

lemma signin_rejected:
  assumes "signInSchema d (req_body req) = Inl details" and "req_body req \<noteq> JNull"
  shows "signin d req db =
           (send new_response 400
              (JObj [(''error'', JStr ''Validation failed''), (''details'', details),
                     (''data'', req_body req)]), db)"
  using assms by (simp add: signin_def)

text \<open>
  C6 fails on the code. A sign-up whose body the schema rejects (here for its role,
  which is neither \<open>user\<close> nor \<open>admin\<close>) is answered 400 with the request body under
  \<open>data\<close>: the response carries the key \<open>password\<close> and, under it, the password as
  it was sent. The README gives the validation error as \<open>{error, details}\<close> only, and
  the handlers of the users controller answer so.
\<close>

theorem signup_rejection_echoes_password:
  "signup example_deps
     (example_request\<lparr>req_body := JObj [(''name'', JStr ''John''),
                                        (''email'', JStr ''john@example.com''),
                                        (''password'', JStr ''password123''),
                                        (''role'', JStr ''owner'')]\<rparr>) example_db
   = (Sent \<lparr>res_status = 400,
            res_body = JObj [(''error'', JStr ''Validation failedhgfdsfgh''),
                             (''details'', JStr ''Role must be user or admin''),
                             (''data'', JObj [(''name'', JStr ''John''),
                                              (''email'', JStr ''john@example.com''),
                                              (''password'', JStr ''password123''),
                                              (''role'', JStr ''owner'')])],
            res_cookies = []\<rparr>, example_db)
   \<and>
   has_field ''password''
     (JObj [(''error'', JStr ''Validation failedhgfdsfgh''),
            (''details'', JStr ''Role must be user or admin''),
            (''data'', JObj [(''name'', JStr ''John''),
                             (''email'', JStr ''john@example.com''),
                             (''password'', JStr ''password123''),
                             (''role'', JStr ''owner'')])])"
  by (simp add: signup_def example_deps_def example_signupSchema_def str_field_def known_role_def
      send_def new_response_def)

text \<open>
  Those two 400 responses apart (the validation failures of sign-up and sign-in), no
  response of the six handlers has a \<open>password\<close> key at any depth.
\<close>

lemma view_has_no_password: "\<not> has_field ''password'' (json_of_view v)"
  by (simp add: json_of_view_def)

lemma views_have_no_password: "\<not> list_ex (has_field ''password'') (map (json_of_view \<circ> f) xs)"
  by (simp add: list_ex_iff view_has_no_password)

lemma deleted_has_no_password: "\<not> has_field ''password'' (json_of_deleted v)"
  by (simp add: json_of_deleted_def)

lemma getAllUsers_no_password:
  assumes "getAllUsers d req db = (Sent res, db')"
  shows "\<not> has_field ''password'' (res_body res)"
  using assms
  by (auto simp: getAllUsers_def getAllUsers_service_def send_def new_response_def
      views_have_no_password)

lemma getUserById_no_password:
  assumes "getUserById d req db = (Sent res, db')" and "res_status res \<noteq> 400"
  shows "\<not> has_field ''password'' (res_body res)"
  using assms
  by (auto simp: getUserById_def getUserById_service_def send_def new_response_def
      validation_failed_def not_found_or_next_def view_has_no_password
      split: sum.splits list.splits if_splits)

lemma deleteUser_no_password:
  assumes "deleteUser d req db = (Sent res, db')" and "res_status res \<noteq> 400"
  shows "\<not> has_field ''password'' (res_body res)"
  using assms
  by (auto simp: deleteUser_def deleteUser_service_def delete_users_def send_def new_response_def
      validation_failed_def not_found_or_next_def optional_field_def first_of_def
      deleted_has_no_password
      split: sum.splits list.splits if_splits option.splits)

lemma updateUser_no_password:
  assumes "updateUser d req db = (Sent res, db')" and "res_status res \<noteq> 400"
  shows "\<not> has_field ''password'' (res_body res)"
proof (cases "userIdSchema d (map_of (req_params req) ''id'')")
  case (Inl details)
  with assms show ?thesis
    by (auto simp: updateUser_def validation_failed_def send_def new_response_def)
next
  case id: (Inr i)
  show ?thesis
  proof (cases "updateUserSchema d (req_body req)")
    case (Inl details)
    with assms id show ?thesis
      by (auto simp: updateUser_def validation_failed_def send_def new_response_def)
  next
    case body: (Inr upd)
    obtain result db1 where svc: "updateUser_service d db i upd = (result, db1)"
      by (cases "updateUser_service d db i upd") auto
    from assms id body svc show ?thesis
      by (auto simp: updateUser_def send_def new_response_def not_found_or_next_def
          optional_field_def view_has_no_password
          split: option.splits if_splits sum.splits)
  qed
qed

lemma signup_no_password:
  assumes "signup d req db = (Sent res, db')" and "res_status res \<noteq> 400"
  shows "\<not> has_field ''password'' (res_body res)"
proof (cases "signupSchema d (req_body req)")
  case (Inl details)
  with assms show ?thesis
    by (auto simp: signup_rejected send_def new_response_def)
next
  case (Inr v)
  obtain result db1 where "createUser d db v = (result, db1)"
    by (cases "createUser d db v") auto
  with assms Inr show ?thesis
    by (auto simp: signup_def send_def new_response_def cookies_set_def Let_def
        split: sum.splits if_splits)
qed

lemma signin_no_password:
  assumes "signin d req db = (Sent res, db')" and "res_status res \<noteq> 400"
  shows "\<not> has_field ''password'' (res_body res)"
proof (cases "signInSchema d (req_body req)")
  case (Inl details)
  with assms show ?thesis
    by (auto simp: signin_def send_def new_response_def split: if_splits)
next
  case (Inr v)
  obtain result db1 where "authenticateUser d db v = (result, db1)"
    by (cases "authenticateUser d db v") auto
  with assms Inr show ?thesis
    by (auto simp: signin_def send_def new_response_def cookies_set_def Let_def
        split: sum.splits if_splits)
qed

end
